theory Spec2Isabelle
  imports Main "HOL-Library.Char_ord" "HOL-Library.List_Lexorder" "HOL-Library.Product_Lexorder"
begin

section \<open>Bookipedia: books and authors joined many-to-many with a blurb\<close>

text \<open>
  The repository holds four variants of one read-only service
  (\<^verbatim>\<open>with-extra-data-1.py\<close> .. \<^verbatim>\<open>with-extra-data-4.py\<close>). All four declare the same three
  tables and run the same seed block; they differ in how the association row is shaped
  into the response: association proxies with aliased schema fields (1), a raw SQL
  property (2), a custom pydantic \<^verbatim>\<open>GetterDict\<close> (3) and an overridden \<^verbatim>\<open>dict()\<close> (4).
  A fifth file, \<^verbatim>\<open>without-extra-data-1.py\<close>, has an association table without a blurb
  and is not part of what follows.
\<close>

subsection \<open>Tables\<close>

text \<open>
  \<^verbatim>\<open>class Book\<close>: columns \<^verbatim>\<open>id\<close>, \<^verbatim>\<open>title\<close>; \<^verbatim>\<open>class Author\<close>: columns \<^verbatim>\<open>id\<close>, \<^verbatim>\<open>name\<close>;
  \<^verbatim>\<open>class BookAuthor\<close>: columns \<^verbatim>\<open>book_id\<close>, \<^verbatim>\<open>author_id\<close>, \<^verbatim>\<open>blurb\<close>. The selectors of the two
  entity tables carry a prefix, since \<open>id\<close> is a constant of HOL.
\<close>

record Book =
  b_id :: int
  b_title :: string

record Author =
  a_id :: int
  a_name :: string

record BookAuthor =
  book_id :: int
  author_id :: int
  blurb :: string

text \<open>The in-memory SQLite database: each table is the list of its rows, in insertion order.\<close>

record store =
  books :: "Book list"
  authors :: "Author list"
  book_authors :: "BookAuthor list"

definition create_all :: store where
  "create_all = \<lparr>books = [], authors = [], book_authors = []\<rparr>"

subsection \<open>The seed block\<close>

text \<open>
  An \<^verbatim>\<open>INTEGER PRIMARY KEY\<close> left unset is assigned one more than the largest key of the
  table, whatever its sign, and 1 in an empty table. (A table whose largest key is the
  largest 64-bit integer is given a random unused key instead; the seed block, which
  fills empty tables, meets no such table.)
\<close>

definition next_id :: "int list \<Rightarrow> int" where
  "next_id ids = (case ids of [] \<Rightarrow> 1 | i # is \<Rightarrow> fold max is i + 1)"

definition add_Book :: "string \<Rightarrow> store \<Rightarrow> int \<times> store" where
  "add_Book t s =
     (let i = next_id (map b_id (books s))
      in (i, s\<lparr>books := books s @ [\<lparr>b_id = i, b_title = t\<rparr>]\<rparr>))"

definition add_Author :: "string \<Rightarrow> store \<Rightarrow> int \<times> store" where
  "add_Author n s =
     (let i = next_id (map a_id (authors s))
      in (i, s\<lparr>authors := authors s @ [\<lparr>a_id = i, a_name = n\<rparr>]\<rparr>))"

definition add_BookAuthor :: "int \<Rightarrow> int \<Rightarrow> string \<Rightarrow> store \<Rightarrow> store" where
  "add_BookAuthor b a t s =
     s\<lparr>book_authors := book_authors s @ [\<lparr>book_id = b, author_id = a, blurb = t\<rparr>]\<rparr>"

text \<open>
  The \<^verbatim>\<open>with Session(bind=engine) as session:\<close> block, which is the same text in all four
  files: five entities are added and committed, then four association rows built from
  the keys the commit assigned.
\<close>

definition seed :: "store \<Rightarrow> store" where
  "seed s0 =
     (let (book1, s1) = add_Book ''Dead People Who'd Be Influencers Today'' s0;
          (book2, s2) = add_Book ''How To Make Friends In Your 30s'' s1;
          (author1, s3) = add_Author ''Blu Renolds'' s2;
          (author2, s4) = add_Author ''Chip Egan'' s3;
          (author3, s5) = add_Author ''Alyssa Wyatt'' s4;
          s6 = add_BookAuthor book1 author1 ''Blue wrote chapter 1'' s5;
          s7 = add_BookAuthor book1 author2 ''Chip wrote chapter 2'' s6;
          s8 = add_BookAuthor book2 author1 ''Blue wrote chapters 1-3'' s7;
          s9 = add_BookAuthor book2 author3 ''Alyssa wrote chapter 4'' s8
      in s9)"

definition seeded :: store where
  "seeded = seed create_all"

subsection \<open>Exceptions, JSON values, Python dictionaries\<close>

text \<open>
  The exceptions the request path can raise: \<^verbatim>\<open>Query.one()\<close> raises \<^verbatim>\<open>NoResultFound\<close> or
  \<^verbatim>\<open>MultipleResultsFound\<close>; binding an integer that SQLite cannot hold raises
  \<^verbatim>\<open>OverflowError\<close>; taking a closed connection from the pool raises
  \<^verbatim>\<open>InvalidRequestError\<close>; attribute access on \<^verbatim>\<open>None\<close> raises \<^verbatim>\<open>AttributeError\<close>;
  subscripting \<^verbatim>\<open>None\<close> raises \<^verbatim>\<open>TypeError\<close>; a missing dictionary key raises
  \<^verbatim>\<open>KeyError\<close>; pydantic raises \<^verbatim>\<open>ValidationError\<close> for a required field that is missing
  or \<^verbatim>\<open>None\<close>.
\<close>

datatype error =
  NoResultFound | MultipleResultsFound | OverflowError | InvalidRequestError |
  AttributeError | TypeError | KeyError | ValidationError

text \<open>
  A Python \<^verbatim>\<open>dict\<close> keeps its keys in insertion order, so a JSON object is the list of
  its items.
\<close>

datatype json =
  JNull | JInt int | JStr string | JList "json list" | JObj "(string \<times> json) list"

definition bindE :: "error + 'a \<Rightarrow> ('a \<Rightarrow> error + 'b) \<Rightarrow> error + 'b" where
  "bindE m f = (case m of Inl e \<Rightarrow> Inl e | Inr x \<Rightarrow> f x)"

text \<open>A comprehension or \<^verbatim>\<open>for\<close> loop over a list whose body may raise: the first exception ends it.\<close>

fun mapE :: "('a \<Rightarrow> error + 'b) \<Rightarrow> 'a list \<Rightarrow> error + 'b list" where
  "mapE f [] = Inr []"
| "mapE f (x # xs) = bindE (f x) (\<lambda>y. bindE (mapE f xs) (\<lambda>ys. Inr (y # ys)))"

text \<open>\<^verbatim>\<open>d[k]\<close>, \<^verbatim>\<open>d[k] = v\<close> and \<^verbatim>\<open>del d[k]\<close>.\<close>

fun subscript :: "json \<Rightarrow> string \<Rightarrow> error + json" where
  "subscript (JObj kvs) k = (case map_of kvs k of None \<Rightarrow> Inl KeyError | Some v \<Rightarrow> Inr v)"
| "subscript j k = Inl TypeError"

fun setitem :: "json \<Rightarrow> string \<Rightarrow> json \<Rightarrow> error + json" where
  "setitem (JObj kvs) k v =
     (case map_of kvs k of
        None \<Rightarrow> Inr (JObj (kvs @ [(k, v)]))
      | Some old \<Rightarrow> Inr (JObj (map (\<lambda>kv. if fst kv = k then (k, v) else kv) kvs)))"
| "setitem j k v = Inl TypeError"

fun delitem :: "json \<Rightarrow> string \<Rightarrow> error + json" where
  "delitem (JObj kvs) k =
     (case map_of kvs k of
        None \<Rightarrow> Inl KeyError
      | Some old \<Rightarrow> Inr (JObj (filter (\<lambda>kv. fst kv \<noteq> k) kvs)))"
| "delitem j k = Inl TypeError"

subsection \<open>Queries and relationships\<close>

text \<open>
  \<^verbatim>\<open>Query.one()\<close>: exactly one entity, else \<^verbatim>\<open>NoResultFound\<close> or \<^verbatim>\<open>MultipleResultsFound\<close>.
\<close>

definition one :: "'a list \<Rightarrow> error + 'a" where
  "one rows = (case rows of [] \<Rightarrow> Inl NoResultFound | [r] \<Rightarrow> Inr r | r # r' # rs \<Rightarrow> Inl MultipleResultsFound)"

text \<open>
  The \<^verbatim>\<open>id\<close> of a request is a Python integer of any size, bound as a parameter of
  the statement. An SQLite integer has 64 bits with sign, and binding an integer outside
  them raises \<^verbatim>\<open>OverflowError\<close> before a row is read.
\<close>

definition int64 :: "int \<Rightarrow> bool" where
  "int64 i = (- (2 ^ 63) \<le> i \<and> i < 2 ^ 63)"

text \<open>
  A \<^verbatim>\<open>Query\<close> returns entities, not rows: rows with the same primary key are one
  identity, returned once, with the columns of the first of them. (The primary key
  lets no table hold two such rows.)
\<close>

fun identities :: "('a \<Rightarrow> 'k) \<Rightarrow> 'a list \<Rightarrow> 'a list" where
  "identities k [] = []"
| "identities k (r # rs) = r # filter (\<lambda>r'. k r' \<noteq> k r) (identities k rs)"

text \<open>
  The four handlers. In every file \<^verbatim>\<open>get_book\<close> is
  \<^verbatim>\<open>db.query(Book)...where(Book.id == id).one()\<close> and \<^verbatim>\<open>get_books\<close> is \<^verbatim>\<open>db.query(Book)...all()\<close>;
  the files differ in the \<^verbatim>\<open>joinedload\<close> options only, which decide when the relationships
  are fetched, not what they hold.
\<close>

definition get_book :: "store \<Rightarrow> int \<Rightarrow> error + Book" where
  "get_book db i =
     (if int64 i then one (identities b_id (filter (\<lambda>b. b_id b = i) (books db)))
      else Inl OverflowError)"

definition get_books :: "store \<Rightarrow> Book list" where
  "get_books db = identities b_id (books db)"

definition get_author :: "store \<Rightarrow> int \<Rightarrow> error + Author" where
  "get_author db i =
     (if int64 i then one (identities a_id (filter (\<lambda>a. a_id a = i) (authors db)))
      else Inl OverflowError)"

definition get_authors :: "store \<Rightarrow> Author list" where
  "get_authors db = identities a_id (authors db)"

text \<open>
  Files 1, 3 and 4: \<^verbatim>\<open>Book.authors\<close> and \<^verbatim>\<open>Author.books\<close> are one-to-many relationships to
  the association rows, \<^verbatim>\<open>BookAuthor.author\<close> and \<^verbatim>\<open>BookAuthor.book\<close> many-to-one
  relationships, which are \<^verbatim>\<open>None\<close> when no row has the referenced key. No relationship
  names an order; the joined load returns the association rows in the order of their
  primary key \<^verbatim>\<open>(book_id, author_id)\<close>, rows of equal key in insertion order.
\<close>

definition index_order :: "BookAuthor list \<Rightarrow> BookAuthor list" where
  "index_order rows = sort_key (\<lambda>ba. (book_id ba, author_id ba)) rows"

definition Book_authors :: "store \<Rightarrow> Book \<Rightarrow> BookAuthor list" where
  "Book_authors db b = filter (\<lambda>ba. book_id ba = b_id b) (index_order (book_authors db))"

definition Author_books :: "store \<Rightarrow> Author \<Rightarrow> BookAuthor list" where
  "Author_books db a = filter (\<lambda>ba. author_id ba = a_id a) (index_order (book_authors db))"

definition BookAuthor_author :: "store \<Rightarrow> BookAuthor \<Rightarrow> Author option" where
  "BookAuthor_author db ba = find (\<lambda>a. a_id a = author_id ba) (authors db)"

definition BookAuthor_book :: "store \<Rightarrow> BookAuthor \<Rightarrow> Book option" where
  "BookAuthor_book db ba = find (\<lambda>b. b_id b = book_id ba) (books db)"

text \<open>
  \<^verbatim>\<open>getattr(obj, key, default)\<close> on the column attributes, as pydantic's \<^verbatim>\<open>GetterDict.get\<close>
  calls it; \<open>None\<close> stands for the default (no such attribute).
\<close>

definition getattr_Book :: "Book \<Rightarrow> string \<Rightarrow> json option" where
  "getattr_Book b key =
     (if key = ''id'' then Some (JInt (b_id b))
      else if key = ''title'' then Some (JStr (b_title b))
      else None)"

definition getattr_Author :: "Author \<Rightarrow> string \<Rightarrow> json option" where
  "getattr_Author a key =
     (if key = ''id'' then Some (JInt (a_id a))
      else if key = ''name'' then Some (JStr (a_name a))
      else None)"

definition getattr_BookAuthor :: "BookAuthor \<Rightarrow> string \<Rightarrow> json option" where
  "getattr_BookAuthor ba key =
     (if key = ''book_id'' then Some (JInt (book_id ba))
      else if key = ''author_id'' then Some (JInt (author_id ba))
      else if key = ''blurb'' then Some (JStr (blurb ba))
      else None)"

subsection \<open>pydantic: populating a field\<close>

text \<open>
  \<^verbatim>\<open>validate_model\<close> reads a field under its alias and, with
  \<^verbatim>\<open>allow_population_by_field_name\<close>, under its name when the alias is missing. A field of
  type \<^verbatim>\<open>int\<close> or \<^verbatim>\<open>str\<close> is required and rejects \<^verbatim>\<open>None\<close>; an \<^verbatim>\<open>Optional\<close> field defaults
  to \<^verbatim>\<open>None\<close>.
\<close>

definition populate :: "(string \<Rightarrow> json option) \<Rightarrow> string \<Rightarrow> string \<Rightarrow> json option" where
  "populate g alias name = (case g alias of Some v \<Rightarrow> Some v | None \<Rightarrow> g name)"

definition required :: "json option \<Rightarrow> error + json" where
  "required v = (case v of None \<Rightarrow> Inl ValidationError | Some JNull \<Rightarrow> Inl ValidationError | Some j \<Rightarrow> Inr j)"

definition optional :: "json option \<Rightarrow> error + json" where
  "optional v = (case v of None \<Rightarrow> Inr JNull | Some j \<Rightarrow> Inr j)"

text \<open>\<^verbatim>\<open>Model.dict(exclude={...})\<close>: the named keys of the top-level object are left out.\<close>

fun exclude :: "string set \<Rightarrow> json \<Rightarrow> json" where
  "exclude ks (JObj kvs) = JObj (filter (\<lambda>kv. fst kv \<notin> ks) kvs)"
| "exclude ks j = j"

subsection \<open>File 1: association proxies and aliased fields\<close>

text \<open>
  \<^verbatim>\<open>BookAuthor\<close> of file 1 has two scalar association proxies besides its columns:
  \<^verbatim>\<open>author_name\<close> is \<^verbatim>\<open>author.name\<close> and \<^verbatim>\<open>book_title\<close> is \<^verbatim>\<open>book.title\<close>, each \<^verbatim>\<open>None\<close> when
  the relationship is \<^verbatim>\<open>None\<close>.
\<close>

definition getattr_BookAuthor_1 :: "store \<Rightarrow> BookAuthor \<Rightarrow> string \<Rightarrow> json option" where
  "getattr_BookAuthor_1 db ba key =
     (if key = ''author_name'' then
        Some (case BookAuthor_author db ba of None \<Rightarrow> JNull | Some a \<Rightarrow> JStr (a_name a))
      else if key = ''book_title'' then
        Some (case BookAuthor_book db ba of None \<Rightarrow> JNull | Some b \<Rightarrow> JStr (b_title b))
      else getattr_BookAuthor ba key)"

text \<open>
  \<^verbatim>\<open>AuthorBase\<close>: \<^verbatim>\<open>id\<close> (alias \<^verbatim>\<open>author_id\<close>), \<^verbatim>\<open>name\<close> (alias \<^verbatim>\<open>author_name\<close>),
  \<^verbatim>\<open>blurb: Optional[str]\<close>. \<^verbatim>\<open>BookBase\<close>: \<^verbatim>\<open>id\<close> (alias \<^verbatim>\<open>book_id\<close>), \<^verbatim>\<open>title\<close> (alias
  \<^verbatim>\<open>book_title\<close>), \<^verbatim>\<open>blurb: Optional[str]\<close>. They are built from the object's getter and
  rendered under the field names (\<^verbatim>\<open>response_model_by_alias=False\<close>).
\<close>

definition AuthorBase_1 :: "(string \<Rightarrow> json option) \<Rightarrow> error + (string \<times> json) list" where
  "AuthorBase_1 g =
     bindE (required (populate g ''author_id'' ''id'')) (\<lambda>i.
     bindE (required (populate g ''author_name'' ''name'')) (\<lambda>n.
     bindE (optional (g ''blurb'')) (\<lambda>b.
     Inr [(''id'', i), (''name'', n), (''blurb'', b)])))"

definition BookBase_1 :: "(string \<Rightarrow> json option) \<Rightarrow> error + (string \<times> json) list" where
  "BookBase_1 g =
     bindE (required (populate g ''book_id'' ''id'')) (\<lambda>i.
     bindE (required (populate g ''book_title'' ''title'')) (\<lambda>t.
     bindE (optional (g ''blurb'')) (\<lambda>b.
     Inr [(''id'', i), (''title'', t), (''blurb'', b)])))"

text \<open>\<^verbatim>\<open>class BookSchema(BookBase): authors: List[AuthorBase]\<close> and its mirror image.\<close>

definition BookSchema_1 :: "store \<Rightarrow> Book \<Rightarrow> error + json" where
  "BookSchema_1 db b =
     bindE (BookBase_1 (getattr_Book b)) (\<lambda>base.
     bindE (mapE (\<lambda>ba. bindE (AuthorBase_1 (getattr_BookAuthor_1 db ba)) (\<lambda>kvs. Inr (JObj kvs)))
              (Book_authors db b)) (\<lambda>xs.
     Inr (JObj (base @ [(''authors'', JList xs)]))))"

definition AuthorSchema_1 :: "store \<Rightarrow> Author \<Rightarrow> error + json" where
  "AuthorSchema_1 db a =
     bindE (AuthorBase_1 (getattr_Author a)) (\<lambda>base.
     bindE (mapE (\<lambda>ba. bindE (BookBase_1 (getattr_BookAuthor_1 db ba)) (\<lambda>kvs. Inr (JObj kvs)))
              (Author_books db a)) (\<lambda>xs.
     Inr (JObj (base @ [(''books'', JList xs)]))))"

text \<open>
  Every route of file 1 is declared with \<^verbatim>\<open>response_model_exclude={'blurb'}\<close>; the encoder
  hands the exclusion to \<^verbatim>\<open>dict()\<close> of the returned model, and to each model of a
  returned list.
\<close>

definition book_response_1 :: "store \<Rightarrow> Book \<Rightarrow> error + json" where
  "book_response_1 db b = bindE (BookSchema_1 db b) (\<lambda>m. Inr (exclude {''blurb''} m))"

definition author_response_1 :: "store \<Rightarrow> Author \<Rightarrow> error + json" where
  "author_response_1 db a = bindE (AuthorSchema_1 db a) (\<lambda>m. Inr (exclude {''blurb''} m))"

subsection \<open>File 2: a property that runs SQL\<close>

text \<open>
  \<^verbatim>\<open>Book.authors\<close> of file 2 selects \<^verbatim>\<open>authors.*\<close>, \<^verbatim>\<open>book_authors.blurb\<close> and
  \<^verbatim>\<open>book_authors.book_id\<close> from \<^verbatim>\<open>authors INNER JOIN book_authors\<close>, joined with \<^verbatim>\<open>books\<close>
  and restricted to the book's key; \<^verbatim>\<open>Author.books\<close> mirrors it. A result row is the list
  of its columns. Neither statement names an order: the rows of a book come by author,
  the rows of an author in the insertion order of the association rows.
\<close>

definition Book_authors_2 :: "store \<Rightarrow> Book \<Rightarrow> (string \<times> json) list list" where
  "Book_authors_2 db b =
     [[(''id'', JInt (a_id a)), (''name'', JStr (a_name a)),
       (''blurb'', JStr (blurb ba)), (''book_id'', JInt (book_id ba))].
      a \<leftarrow> authors db, ba \<leftarrow> book_authors db, a_id a = author_id ba,
      bk \<leftarrow> books db, book_id ba = b_id bk, b_id bk = b_id b]"

definition Author_books_2 :: "store \<Rightarrow> Author \<Rightarrow> (string \<times> json) list list" where
  "Author_books_2 db a =
     [[(''id'', JInt (b_id b)), (''title'', JStr (b_title b)),
       (''blurb'', JStr (blurb ba)), (''author_id'', JInt (author_id ba))].
      ba \<leftarrow> book_authors db, b \<leftarrow> books db, b_id b = book_id ba,
      au \<leftarrow> authors db, author_id ba = a_id au, a_id au = a_id a]"

text \<open>
  \<^verbatim>\<open>AuthorBase\<close>: \<^verbatim>\<open>id\<close>, \<^verbatim>\<open>name\<close>. \<^verbatim>\<open>BookBase\<close>: \<^verbatim>\<open>id\<close>, \<^verbatim>\<open>title\<close>. Neither declares a
  \<^verbatim>\<open>blurb\<close> field, and pydantic ignores what a model does not declare.
\<close>

definition AuthorBase_2 :: "(string \<Rightarrow> json option) \<Rightarrow> error + (string \<times> json) list" where
  "AuthorBase_2 g =
     bindE (required (g ''id'')) (\<lambda>i.
     bindE (required (g ''name'')) (\<lambda>n.
     Inr [(''id'', i), (''name'', n)]))"

definition BookBase_2 :: "(string \<Rightarrow> json option) \<Rightarrow> error + (string \<times> json) list" where
  "BookBase_2 g =
     bindE (required (g ''id'')) (\<lambda>i.
     bindE (required (g ''title'')) (\<lambda>t.
     Inr [(''id'', i), (''title'', t)]))"

definition BookSchema_2 :: "store \<Rightarrow> Book \<Rightarrow> error + json" where
  "BookSchema_2 db b =
     bindE (BookBase_2 (getattr_Book b)) (\<lambda>base.
     bindE (mapE (\<lambda>row. bindE (AuthorBase_2 (map_of row)) (\<lambda>kvs. Inr (JObj kvs)))
              (Book_authors_2 db b)) (\<lambda>xs.
     Inr (JObj (base @ [(''authors'', JList xs)]))))"

definition AuthorSchema_2 :: "store \<Rightarrow> Author \<Rightarrow> error + json" where
  "AuthorSchema_2 db a =
     bindE (AuthorBase_2 (getattr_Author a)) (\<lambda>base.
     bindE (mapE (\<lambda>row. bindE (BookBase_2 (map_of row)) (\<lambda>kvs. Inr (JObj kvs)))
              (Author_books_2 db a)) (\<lambda>xs.
     Inr (JObj (base @ [(''books'', JList xs)]))))"

subsection \<open>File 3: a custom GetterDict\<close>

text \<open>
  \<^verbatim>\<open>BookAuthorGetter.get\<close>: the keys \<^verbatim>\<open>id\<close> and \<^verbatim>\<open>name\<close> are read from \<^verbatim>\<open>self._obj.author\<close>
  with a two-argument \<^verbatim>\<open>getattr\<close>, which raises on \<^verbatim>\<open>None\<close>; every other key is read from
  the association row with a default. \<^verbatim>\<open>AuthorBookGetter.get\<close> does the same with \<^verbatim>\<open>id\<close>,
  \<^verbatim>\<open>title\<close> and \<^verbatim>\<open>self._obj.book\<close>.
\<close>

definition BookAuthorGetter :: "store \<Rightarrow> BookAuthor \<Rightarrow> string \<Rightarrow> error + json option" where
  "BookAuthorGetter db ba key =
     (if key \<in> {''id'', ''name''} then
        (case BookAuthor_author db ba of
           None \<Rightarrow> Inl AttributeError
         | Some a \<Rightarrow> (case getattr_Author a key of None \<Rightarrow> Inl AttributeError | Some v \<Rightarrow> Inr (Some v)))
      else Inr (getattr_BookAuthor ba key))"

definition AuthorBookGetter :: "store \<Rightarrow> BookAuthor \<Rightarrow> string \<Rightarrow> error + json option" where
  "AuthorBookGetter db ba key =
     (if key \<in> {''id'', ''title''} then
        (case BookAuthor_book db ba of
           None \<Rightarrow> Inl AttributeError
         | Some b \<Rightarrow> (case getattr_Book b key of None \<Rightarrow> Inl AttributeError | Some v \<Rightarrow> Inr (Some v)))
      else Inr (getattr_BookAuthor ba key))"

text \<open>\<^verbatim>\<open>BookAuthorSchema\<close>: \<^verbatim>\<open>id\<close>, \<^verbatim>\<open>name\<close>, \<^verbatim>\<open>blurb\<close>, read through \<^verbatim>\<open>BookAuthorGetter\<close>.\<close>

definition BookAuthorSchema_3 :: "store \<Rightarrow> BookAuthor \<Rightarrow> error + json" where
  "BookAuthorSchema_3 db ba =
     bindE (bindE (BookAuthorGetter db ba ''id'') required) (\<lambda>i.
     bindE (bindE (BookAuthorGetter db ba ''name'') required) (\<lambda>n.
     bindE (bindE (BookAuthorGetter db ba ''blurb'') required) (\<lambda>b.
     Inr (JObj [(''id'', i), (''name'', n), (''blurb'', b)]))))"

definition AuthorBookSchema_3 :: "store \<Rightarrow> BookAuthor \<Rightarrow> error + json" where
  "AuthorBookSchema_3 db ba =
     bindE (bindE (AuthorBookGetter db ba ''id'') required) (\<lambda>i.
     bindE (bindE (AuthorBookGetter db ba ''title'') required) (\<lambda>t.
     bindE (bindE (AuthorBookGetter db ba ''blurb'') required) (\<lambda>b.
     Inr (JObj [(''id'', i), (''title'', t), (''blurb'', b)]))))"

definition BookSchema_3 :: "store \<Rightarrow> Book \<Rightarrow> error + json" where
  "BookSchema_3 db b =
     bindE (required (getattr_Book b ''id'')) (\<lambda>i.
     bindE (required (getattr_Book b ''title'')) (\<lambda>t.
     bindE (mapE (BookAuthorSchema_3 db) (Book_authors db b)) (\<lambda>xs.
     Inr (JObj [(''id'', i), (''title'', t), (''authors'', JList xs)]))))"

definition AuthorSchema_3 :: "store \<Rightarrow> Author \<Rightarrow> error + json" where
  "AuthorSchema_3 db a =
     bindE (required (getattr_Author a ''id'')) (\<lambda>i.
     bindE (required (getattr_Author a ''name'')) (\<lambda>n.
     bindE (mapE (AuthorBookSchema_3 db) (Author_books db a)) (\<lambda>xs.
     Inr (JObj [(''id'', i), (''name'', n), (''books'', JList xs)]))))"

subsection \<open>File 4: an overridden dict()\<close>

text \<open>
  \<^verbatim>\<open>RelatedAuthorSchema\<close>: \<^verbatim>\<open>id\<close>, \<^verbatim>\<open>name\<close>. \<^verbatim>\<open>BookAuthorSchema\<close>: \<^verbatim>\<open>blurb: str\<close>,
  \<^verbatim>\<open>author: Optional[RelatedAuthorSchema]\<close>. \<^verbatim>\<open>BookSchema\<close>: \<^verbatim>\<open>id\<close>, \<^verbatim>\<open>title\<close>,
  \<^verbatim>\<open>authors: List[BookAuthorSchema]\<close>. The definitions give what \<^verbatim>\<open>super().dict()\<close>
  returns for the validated model.
\<close>

definition RelatedAuthorSchema :: "Author \<Rightarrow> error + json" where
  "RelatedAuthorSchema a =
     bindE (required (getattr_Author a ''id'')) (\<lambda>i.
     bindE (required (getattr_Author a ''name'')) (\<lambda>n.
     Inr (JObj [(''id'', i), (''name'', n)])))"

definition RelatedBookSchema :: "Book \<Rightarrow> error + json" where
  "RelatedBookSchema b =
     bindE (required (getattr_Book b ''id'')) (\<lambda>i.
     bindE (required (getattr_Book b ''title'')) (\<lambda>t.
     Inr (JObj [(''id'', i), (''title'', t)])))"

definition BookAuthorSchema_4 :: "store \<Rightarrow> BookAuthor \<Rightarrow> error + json" where
  "BookAuthorSchema_4 db ba =
     bindE (required (getattr_BookAuthor ba ''blurb'')) (\<lambda>b.
     bindE (case BookAuthor_author db ba of None \<Rightarrow> Inr JNull | Some a \<Rightarrow> RelatedAuthorSchema a) (\<lambda>a.
     Inr (JObj [(''blurb'', b), (''author'', a)])))"

definition AuthorBookSchema_4 :: "store \<Rightarrow> BookAuthor \<Rightarrow> error + json" where
  "AuthorBookSchema_4 db ba =
     bindE (required (getattr_BookAuthor ba ''blurb'')) (\<lambda>bl.
     bindE (case BookAuthor_book db ba of None \<Rightarrow> Inr JNull | Some b \<Rightarrow> RelatedBookSchema b) (\<lambda>b.
     Inr (JObj [(''blurb'', bl), (''book'', b)])))"

definition BookSchema_4 :: "store \<Rightarrow> Book \<Rightarrow> error + json" where
  "BookSchema_4 db b =
     bindE (required (getattr_Book b ''id'')) (\<lambda>i.
     bindE (required (getattr_Book b ''title'')) (\<lambda>t.
     bindE (mapE (BookAuthorSchema_4 db) (Book_authors db b)) (\<lambda>xs.
     Inr (JObj [(''id'', i), (''title'', t), (''authors'', JList xs)]))))"

definition AuthorSchema_4 :: "store \<Rightarrow> Author \<Rightarrow> error + json" where
  "AuthorSchema_4 db a =
     bindE (required (getattr_Author a ''id'')) (\<lambda>i.
     bindE (required (getattr_Author a ''name'')) (\<lambda>n.
     bindE (mapE (AuthorBookSchema_4 db) (Author_books db a)) (\<lambda>xs.
     Inr (JObj [(''id'', i), (''name'', n), (''books'', JList xs)]))))"

text \<open>
  The body of the loop of \<^verbatim>\<open>BookSchema.dict\<close>:
  \<^verbatim>\<open>a['id'] = a['author']['id']; a['name'] = a['author']['name']; del a['author']\<close>.
\<close>

definition merge_author :: "json \<Rightarrow> error + json" where
  "merge_author a =
     bindE (subscript a ''author'') (\<lambda>au.
     bindE (subscript au ''id'') (\<lambda>i.
     bindE (setitem a ''id'' i) (\<lambda>a1.
     bindE (subscript a1 ''author'') (\<lambda>au1.
     bindE (subscript au1 ''name'') (\<lambda>n.
     bindE (setitem a1 ''name'' n) (\<lambda>a2.
     delitem a2 ''author''))))))"

definition merge_book :: "json \<Rightarrow> error + json" where
  "merge_book b =
     bindE (subscript b ''book'') (\<lambda>bk.
     bindE (subscript bk ''id'') (\<lambda>i.
     bindE (setitem b ''id'' i) (\<lambda>b1.
     bindE (subscript b1 ''book'') (\<lambda>bk1.
     bindE (subscript bk1 ''title'') (\<lambda>t.
     bindE (setitem b1 ''title'' t) (\<lambda>b2.
     delitem b2 ''book''))))))"

text \<open>
  \<^verbatim>\<open>BookSchema.dict\<close> and \<^verbatim>\<open>AuthorSchema.dict\<close>: the loop runs over \<^verbatim>\<open>data['authors']\<close>
  (\<^verbatim>\<open>data['books']\<close>) and changes each entry in place, so the returned \<^verbatim>\<open>data\<close> holds
  the changed entries.
\<close>

definition iterate :: "json \<Rightarrow> error + json list" where
  "iterate j = (case j of JList xs \<Rightarrow> Inr xs | _ \<Rightarrow> Inl TypeError)"

definition BookSchema_dict :: "json \<Rightarrow> error + json" where
  "BookSchema_dict data =
     bindE (subscript data ''authors'') (\<lambda>l.
     bindE (iterate l) (\<lambda>xs.
     bindE (mapE merge_author xs) (\<lambda>ys.
     setitem data ''authors'' (JList ys))))"

definition AuthorSchema_dict :: "json \<Rightarrow> error + json" where
  "AuthorSchema_dict data =
     bindE (subscript data ''books'') (\<lambda>l.
     bindE (iterate l) (\<lambda>xs.
     bindE (mapE merge_book xs) (\<lambda>ys.
     setitem data ''books'' (JList ys))))"

definition book_response_4 :: "store \<Rightarrow> Book \<Rightarrow> error + json" where
  "book_response_4 db b = bindE (BookSchema_4 db b) BookSchema_dict"

definition author_response_4 :: "store \<Rightarrow> Author \<Rightarrow> error + json" where
  "author_response_4 db a = bindE (AuthorSchema_4 db a) AuthorSchema_dict"

subsection \<open>Routes\<close>

datatype variant = File_1 | File_2 | File_3 | File_4

datatype endpoint = GET_book int | GET_books | GET_author int | GET_authors

text \<open>The \<^verbatim>\<open>response_model\<close> of a route, applied to what the handler returned.\<close>

fun book_response :: "variant \<Rightarrow> store \<Rightarrow> Book \<Rightarrow> error + json" where
  "book_response File_1 db b = book_response_1 db b"
| "book_response File_2 db b = BookSchema_2 db b"
| "book_response File_3 db b = BookSchema_3 db b"
| "book_response File_4 db b = book_response_4 db b"

fun author_response :: "variant \<Rightarrow> store \<Rightarrow> Author \<Rightarrow> error + json" where
  "author_response File_1 db a = author_response_1 db a"
| "author_response File_2 db a = AuthorSchema_2 db a"
| "author_response File_3 db a = AuthorSchema_3 db a"
| "author_response File_4 db a = author_response_4 db a"

text \<open>
  A request has two steps. The handler of its route (\<^verbatim>\<open>/books/{id}\<close>, \<^verbatim>\<open>/books\<close>,
  \<^verbatim>\<open>/authors/{id}\<close>, \<^verbatim>\<open>/authors\<close>) runs the query and returns what it fetched; the
  framework then renders the returned value with the route's \<^verbatim>\<open>response_model\<close>.
\<close>

datatype fetched = A_book Book | Some_books "Book list" | An_author Author | Some_authors "Author list"

fun handler :: "endpoint \<Rightarrow> store \<Rightarrow> error + fetched" where
  "handler (GET_book i) db = bindE (get_book db i) (\<lambda>b. Inr (A_book b))"
| "handler GET_books db = Inr (Some_books (get_books db))"
| "handler (GET_author i) db = bindE (get_author db i) (\<lambda>a. Inr (An_author a))"
| "handler GET_authors db = Inr (Some_authors (get_authors db))"

fun render :: "variant \<Rightarrow> store \<Rightarrow> fetched \<Rightarrow> error + json" where
  "render v db (A_book b) = book_response v db b"
| "render v db (Some_books bs) = bindE (mapE (book_response v db) bs) (\<lambda>xs. Inr (JList xs))"
| "render v db (An_author a) = author_response v db a"
| "render v db (Some_authors as) = bindE (mapE (author_response v db) as) (\<lambda>xs. Inr (JList xs))"

text \<open>
  Both steps on a connection that works: the JSON body, or the exception that left the
  request.
\<close>

definition app :: "variant \<Rightarrow> endpoint \<Rightarrow> store \<Rightarrow> error + json" where
  "app v e db = bindE (handler e db) (render v db)"

text \<open>
  No file raises \<^verbatim>\<open>HTTPException\<close> or registers an exception handler, so an exception
  that leaves a request reaches the server's default: status 500 with the plain text
  \<^verbatim>\<open>Internal Server Error\<close>. A rendered result is sent with status 200.
\<close>

datatype content = JSON json | Text string

datatype response = Response (status_code: nat) (body: content)

definition respond :: "error + json \<Rightarrow> response" where
  "respond r = (case r of Inr j \<Rightarrow> Response 200 (JSON j) | Inl e \<Rightarrow> Response 500 (Text ''Internal Server Error''))"

definition client_error :: "response \<Rightarrow> bool" where
  "client_error r = (400 \<le> status_code r \<and> status_code r < 500)"

definition server_error :: "response \<Rightarrow> bool" where
  "server_error r = (500 \<le> status_code r \<and> status_code r < 600)"

subsection \<open>The session dependency\<close>

text \<open>
  The process: the database, the sessions that are open, how many were made, and
  whether the pool still holds, for the thread of the event loop, a connection that has
  been closed.

  The engine is made for an in-memory SQLite database, whose pool keeps one connection
  for each thread and remembers, in that thread, the one it last handed out. The
  handlers are \<^verbatim>\<open>async\<close> and query in the thread of the event loop, while \<^verbatim>\<open>get_db\<close> is
  not, so that its \<^verbatim>\<open>db.close()\<close> runs in a worker thread, where the pool cannot forget
  the connection it closes. A connection nothing refers to is freed at once, and the
  next request is handed a new one. An exception raised by a query refers to the result
  of that query and through it to the connection; it keeps the closed connection
  alive, and the pool hands it out again. How long the exception lives is the garbage
  collector's choice, which is not followed here: once kept, the connection stays.
\<close>

record world =
  database :: store
  open_sessions :: "nat list"
  sessions_made :: nat
  stale_connection :: bool

definition Session :: "world \<Rightarrow> nat \<times> world" where
  "Session w =
     (sessions_made w,
      w\<lparr>open_sessions := sessions_made w # open_sessions w, sessions_made := sessions_made w + 1\<rparr>)"

definition close :: "nat \<Rightarrow> world \<Rightarrow> world" where
  "close db w = w\<lparr>open_sessions := removeAll db (open_sessions w)\<rparr>"

text \<open>
  \<^verbatim>\<open>get_db\<close>: \<^verbatim>\<open>db = Session(bind=engine); try: yield db; finally: db.close()\<close>. The request
  runs at the \<^verbatim>\<open>yield\<close>; it ends with a value or with an exception, and the \<^verbatim>\<open>finally\<close>
  clause runs in both cases, the exception going on afterwards.
\<close>

definition get_db :: "(nat \<Rightarrow> world \<Rightarrow> (error + 'a) \<times> world) \<Rightarrow> world \<Rightarrow> (error + 'a) \<times> world" where
  "get_db use w =
     (let (db, w1) = Session w
      in case use db w1 of
           (Inl e, w2) \<Rightarrow> (Inl e, close db w2)
         | (Inr x, w2) \<Rightarrow> (Inr x, close db w2))"

text \<open>
  The request at the \<^verbatim>\<open>yield\<close> of \<^verbatim>\<open>get_db\<close>. The first query takes a connection from the
  pool, which raises \<^verbatim>\<open>InvalidRequestError\<close> when it holds a closed one. When the handler
  raises, its exception keeps the connection of the request; when it returns, the
  returned value is rendered. No step writes to the database.
\<close>

definition run_handler :: "variant \<Rightarrow> endpoint \<Rightarrow> nat \<Rightarrow> world \<Rightarrow> (error + json) \<times> world" where
  "run_handler v e db w =
     (if stale_connection w then (Inl InvalidRequestError, w)
      else case handler e (database w) of
             Inl err \<Rightarrow> (Inl err, w\<lparr>stale_connection := True\<rparr>)
           | Inr x \<Rightarrow> (render v (database w) x, w))"

definition request :: "variant \<Rightarrow> endpoint \<Rightarrow> world \<Rightarrow> response \<times> world" where
  "request v e w = (let (r, w') = get_db (run_handler v e) w in (respond r, w'))"

text \<open>A sequence of requests, one after the other; the responses are collected in order.\<close>

fun requests :: "variant \<Rightarrow> endpoint list \<Rightarrow> world \<Rightarrow> response list \<times> world" where
  "requests v [] w = ([], w)"
| "requests v (e # es) w =
     (let (r, w1) = request v e w; (rs, w2) = requests v es w1 in (r # rs, w2))"

text \<open>The process after start-up: the seed block's session was made and has been closed.\<close>

definition startup :: world where
  "startup = \<lparr>database = seeded, open_sessions = [], sessions_made = 1, stale_connection = False\<rparr>"

subsection \<open>Reading a response body\<close>

text \<open>
  The top-level objects of a body (the body itself on the singular routes, its elements
  on the list routes), the keys and values of an object, and the entries of the
  \<^verbatim>\<open>authors\<close> or \<^verbatim>\<open>books\<close> list of a top-level object.
\<close>

fun objects :: "endpoint \<Rightarrow> json \<Rightarrow> json list" where
  "objects (GET_book i) j = [j]"
| "objects (GET_author i) j = [j]"
| "objects e j = (case j of JList xs \<Rightarrow> xs | _ \<Rightarrow> [])"

definition keys :: "json \<Rightarrow> string list" where
  "keys j = (case j of JObj kvs \<Rightarrow> map fst kvs | _ \<Rightarrow> [])"

definition vals :: "json \<Rightarrow> json list" where
  "vals j = (case j of JObj kvs \<Rightarrow> map snd kvs | _ \<Rightarrow> [])"

definition field :: "json \<Rightarrow> string \<Rightarrow> json option" where
  "field j k = (case j of JObj kvs \<Rightarrow> map_of kvs k | _ \<Rightarrow> None)"

definition related :: "json \<Rightarrow> json list" where
  "related obj =
     (case field obj ''authors'' of Some (JList xs) \<Rightarrow> xs | _ \<Rightarrow> []) @
     (case field obj ''books'' of Some (JList xs) \<Rightarrow> xs | _ \<Rightarrow> [])"

definition is_object :: "json \<Rightarrow> bool" where
  "is_object j = (case j of JObj kvs \<Rightarrow> True | _ \<Rightarrow> False)"

definition scalar :: "json \<Rightarrow> bool" where
  "scalar j = (case j of JList xs \<Rightarrow> False | JObj kvs \<Rightarrow> False | _ \<Rightarrow> True)"

text \<open>
  The flat projection of an association row and the entity it links to: the entity's
  key and label, and the blurb of the row.
\<close>

definition author_entry :: "Author \<Rightarrow> BookAuthor \<Rightarrow> json" where
  "author_entry a ba = JObj [(''id'', JInt (a_id a)), (''name'', JStr (a_name a)), (''blurb'', JStr (blurb ba))]"

definition book_entry :: "Book \<Rightarrow> BookAuthor \<Rightarrow> json" where
  "book_entry b ba = JObj [(''id'', JInt (b_id b)), (''title'', JStr (b_title b)), (''blurb'', JStr (blurb ba))]"

text \<open>
  File 4 builds its entries by adding \<^verbatim>\<open>id\<close> and \<^verbatim>\<open>name\<close> (\<^verbatim>\<open>title\<close>) to a dictionary that
  already holds \<^verbatim>\<open>blurb\<close>, so its entries list \<^verbatim>\<open>blurb\<close> first.
\<close>

definition author_entry_4 :: "Author \<Rightarrow> BookAuthor \<Rightarrow> json" where
  "author_entry_4 a ba = JObj [(''blurb'', JStr (blurb ba)), (''id'', JInt (a_id a)), (''name'', JStr (a_name a))]"

definition book_entry_4 :: "Book \<Rightarrow> BookAuthor \<Rightarrow> json" where
  "book_entry_4 b ba = JObj [(''blurb'', JStr (blurb ba)), (''id'', JInt (b_id b)), (''title'', JStr (b_title b))]"

text \<open>A top-level object: the entity's own columns and the list of its entries.\<close>

definition book_top :: "Book \<Rightarrow> json list \<Rightarrow> json" where
  "book_top b xs = JObj [(''id'', JInt (b_id b)), (''title'', JStr (b_title b)), (''authors'', JList xs)]"

definition author_top :: "Author \<Rightarrow> json list \<Rightarrow> json" where
  "author_top a xs = JObj [(''id'', JInt (a_id a)), (''name'', JStr (a_name a)), (''books'', JList xs)]"

text \<open>
  An entry made from an association row through its relationship: the exception \<open>e\<close>
  when the relationship is \<^verbatim>\<open>None\<close>, else the projection \<open>f\<close> of the linked entity and
  the row.
\<close>

definition via_author :: "store \<Rightarrow> error \<Rightarrow> (Author \<Rightarrow> BookAuthor \<Rightarrow> json) \<Rightarrow> BookAuthor \<Rightarrow> error + json" where
  "via_author db e f ba = (case BookAuthor_author db ba of None \<Rightarrow> Inl e | Some a \<Rightarrow> Inr (f a ba))"

definition via_book :: "store \<Rightarrow> error \<Rightarrow> (Book \<Rightarrow> BookAuthor \<Rightarrow> json) \<Rightarrow> BookAuthor \<Rightarrow> error + json" where
  "via_book db e f ba = (case BookAuthor_book db ba of None \<Rightarrow> Inl e | Some b \<Rightarrow> Inr (f b ba))"

text \<open>A flat entry: an object whose keys are among the four public ones and whose values are scalars.\<close>

definition flat :: "json \<Rightarrow> bool" where
  "flat x = (is_object x \<and> set (keys x) \<subseteq> {''id'', ''name'', ''title'', ''blurb''} \<and> list_all scalar (vals x))"

text \<open>
  A JSON object has no order of keys. The canonical form of a value lists the items of
  every object by ascending key, so that two values denote the same JSON document when
  their canonical forms are equal.
\<close>

fun canonical :: "json \<Rightarrow> json" where
  "canonical (JList xs) = JList (map canonical xs)"
| "canonical (JObj kvs) = JObj (sort_key fst (map (\<lambda>kv. (fst kv, canonical (snd kv))) kvs))"
| "canonical j = j"

fun canonical_content :: "content \<Rightarrow> content" where
  "canonical_content (JSON j) = JSON (canonical j)"
| "canonical_content (Text t) = Text t"

definition canonical_response :: "response \<Rightarrow> response" where
  "canonical_response r = Response (status_code r) (canonical_content (body r))"

text \<open>The singular routes, the key they ask for, and the number of rows their lookup matches.\<close>

fun singular :: "endpoint \<Rightarrow> bool" where
  "singular (GET_book i) = True"
| "singular (GET_author i) = True"
| "singular e = False"

fun requested_id :: "endpoint \<Rightarrow> int" where
  "requested_id (GET_book i) = i"
| "requested_id (GET_author i) = i"
| "requested_id e = 0"

fun rows_matched :: "endpoint \<Rightarrow> store \<Rightarrow> nat" where
  "rows_matched (GET_book i) db = length (filter (\<lambda>b. b_id b = i) (books db))"
| "rows_matched (GET_author i) db = length (filter (\<lambda>a. a_id a = i) (authors db))"
| "rows_matched GET_books db = length (books db)"
| "rows_matched GET_authors db = length (authors db)"

text \<open>Referential integrity: every association row links to a stored author and a stored book.\<close>

definition fk_valid :: "store \<Rightarrow> bool" where
  "fk_valid db =
     list_all (\<lambda>ba. BookAuthor_author db ba \<noteq> None \<and> BookAuthor_book db ba \<noteq> None) (book_authors db)"

text \<open>The exceptions of the lookup itself, as opposed to those of rendering.\<close>

definition lookup_error :: "error \<Rightarrow> bool" where
  "lookup_error e = (e = NoResultFound \<or> e = MultipleResultsFound \<or> e = OverflowError)"

section \<open>Properties\<close>

subsection \<open>Auxiliary facts\<close>

lemma bindE_simps [simp]: "bindE (Inl e) f = Inl e" "bindE (Inr x) f = f x"
  by (simp_all add: bindE_def)

lemma bindE_Inr_iff: "bindE m f = Inr y \<longleftrightarrow> (\<exists>x. m = Inr x \<and> f x = Inr y)"
  by (cases m) simp_all

lemma bindE_assoc: "bindE (bindE m f) g = bindE m (\<lambda>x. bindE (f x) g)"
  by (cases m) simp_all

lemma app_simps [simp]:
  "app v (GET_book i) db = bindE (get_book db i) (book_response v db)"
  "app v GET_books db = bindE (mapE (book_response v db) (get_books db)) (\<lambda>xs. Inr (JList xs))"
  "app v (GET_author i) db = bindE (get_author db i) (author_response v db)"
  "app v GET_authors db = bindE (mapE (author_response v db) (get_authors db)) (\<lambda>xs. Inr (JList xs))"
  by (simp_all add: app_def bindE_assoc)

lemma set_identities: "set (identities k rows) \<subseteq> set rows"
  by (induction rows) auto

lemma identities_one_key:
  "(\<And>r. r \<in> set rows \<Longrightarrow> k r = i) \<Longrightarrow> identities k rows = take 1 rows"
proof (induction rows)
  case Nil
  show ?case by simp
next
  case (Cons r rs)
  have "filter (\<lambda>r'. k r' \<noteq> k r) (identities k rs) = []"
    using Cons.prems set_identities [of k rs] by (auto simp: filter_empty_conv)
  then show ?case by simp
qed

lemma one_of_key:
  "one (identities k (filter (\<lambda>r. k r = i) rows)) =
     (case filter (\<lambda>r. k r = i) rows of [] \<Rightarrow> Inl NoResultFound | r # rs \<Rightarrow> Inr r)"
proof -
  have "identities k (filter (\<lambda>r. k r = i) rows) = take 1 (filter (\<lambda>r. k r = i) rows)"
    by (rule identities_one_key) simp
  then show ?thesis by (simp add: one_def split: list.splits)
qed

lemma get_book_eq:
  "get_book db i =
     (if int64 i then
        (case filter (\<lambda>b. b_id b = i) (books db) of [] \<Rightarrow> Inl NoResultFound | b # bs \<Rightarrow> Inr b)
      else Inl OverflowError)"
  by (simp add: get_book_def one_of_key)

lemma get_author_eq:
  "get_author db i =
     (if int64 i then
        (case filter (\<lambda>a. a_id a = i) (authors db) of [] \<Rightarrow> Inl NoResultFound | a # as \<Rightarrow> Inr a)
      else Inl OverflowError)"
  by (simp add: get_author_def one_of_key)

lemma set_index_order [simp]: "set (index_order rows) = set rows"
  by (simp add: index_order_def)

lemma mapE_Inr_iff: "mapE f xs = Inr ys \<longleftrightarrow> list_all2 (\<lambda>x y. f x = Inr y) xs ys"
proof (induction xs arbitrary: ys)
  case Nil
  show ?case by auto
next
  case (Cons x xs)
  show ?case
  proof (cases "f x")
    case (Inl e)
    then show ?thesis by (auto simp: list_all2_Cons1)
  next
    case (Inr y)
    show ?thesis
    proof (cases "mapE f xs")
      case (Inl e)
      with Inr Cons show ?thesis by (auto simp: list_all2_Cons1)
    next
      case r: (Inr zs)
      with Inr Cons show ?thesis by (auto simp: list_all2_Cons1)
    qed
  qed
qed

lemma mapE_map: "(\<And>x. x \<in> set xs \<Longrightarrow> f x = Inr (g x)) \<Longrightarrow> mapE f xs = Inr (map g xs)"
  by (induction xs) simp_all

lemma mapE_Inr_setD: "mapE f xs = Inr ys \<Longrightarrow> y \<in> set ys \<Longrightarrow> \<exists>x\<in>set xs. f x = Inr y"
  unfolding mapE_Inr_iff by (induction xs ys rule: list_all2_induct) auto

lemma mapE_total: "(\<And>x. \<exists>y. f x = Inr y) \<Longrightarrow> \<exists>ys. mapE f xs = Inr ys"
  by (induction xs) (auto, metis bindE_simps(2))

lemma mapE_bind_total:
  assumes "\<And>x. \<exists>y. f x = Inr y"
  shows "bindE (mapE f xs) (mapE g) = mapE (\<lambda>x. bindE (f x) g) xs"
proof (induction xs)
  case Nil
  show ?case by simp
next
  case (Cons x xs)
  from assms obtain y where y: "f x = Inr y" by blast
  from mapE_total [of f xs] assms obtain ys where ys: "mapE f xs = Inr ys" by blast
  with Cons y show ?case by simp
qed

lemma required_simps [simp]:
  "required None = Inl ValidationError" "required (Some JNull) = Inl ValidationError"
  "required (Some (JInt i)) = Inr (JInt i)" "required (Some (JStr t)) = Inr (JStr t)"
  by (simp_all add: required_def)

lemma find_SomeD: "find P xs = Some x \<Longrightarrow> P x \<and> x \<in> set xs"
  by (induction xs) (auto split: if_splits)

subsection \<open>What each file renders\<close>

text \<open>File 1: the aliases fall back to the field names on an entity, and find the column and the proxy on an association row.\<close>

lemma BookBase_1_Book:
  "BookBase_1 (getattr_Book b) = Inr [(''id'', JInt (b_id b)), (''title'', JStr (b_title b)), (''blurb'', JNull)]"
  by (simp add: BookBase_1_def getattr_Book_def populate_def optional_def)

lemma AuthorBase_1_Author:
  "AuthorBase_1 (getattr_Author a) = Inr [(''id'', JInt (a_id a)), (''name'', JStr (a_name a)), (''blurb'', JNull)]"
  by (simp add: AuthorBase_1_def getattr_Author_def populate_def optional_def)

lemma AuthorBase_1_row:
  "bindE (AuthorBase_1 (getattr_BookAuthor_1 db ba)) (\<lambda>kvs. Inr (JObj kvs)) =
     via_author db ValidationError author_entry ba"
  by (auto simp: AuthorBase_1_def getattr_BookAuthor_1_def getattr_BookAuthor_def populate_def
      optional_def author_entry_def BookAuthor_author_def via_author_def
      dest: find_SomeD split: option.splits)

lemma BookBase_1_row:
  "bindE (BookBase_1 (getattr_BookAuthor_1 db ba)) (\<lambda>kvs. Inr (JObj kvs)) =
     via_book db ValidationError book_entry ba"
  by (auto simp: BookBase_1_def getattr_BookAuthor_1_def getattr_BookAuthor_def populate_def
      optional_def book_entry_def BookAuthor_book_def via_book_def
      dest: find_SomeD split: option.splits)

lemma book_response_1_eq:
  "book_response_1 db b =
     bindE (mapE (via_author db ValidationError author_entry) (Book_authors db b)) (\<lambda>xs. Inr (book_top b xs))"
  by (cases "mapE (via_author db ValidationError author_entry) (Book_authors db b)")
     (simp_all add: book_response_1_def BookSchema_1_def BookBase_1_Book AuthorBase_1_row book_top_def)

lemma author_response_1_eq:
  "author_response_1 db a =
     bindE (mapE (via_book db ValidationError book_entry) (Author_books db a)) (\<lambda>xs. Inr (author_top a xs))"
  by (cases "mapE (via_book db ValidationError book_entry) (Author_books db a)")
     (simp_all add: author_response_1_def AuthorSchema_1_def AuthorBase_1_Author BookBase_1_row author_top_def)

text \<open>File 3: the getter reads two keys from the linked entity.\<close>

lemma BookAuthorSchema_3_row: "BookAuthorSchema_3 db = via_author db AttributeError author_entry"
  by (rule ext) (simp add: BookAuthorSchema_3_def BookAuthorGetter_def getattr_Author_def
      getattr_BookAuthor_def author_entry_def via_author_def split: option.splits)

lemma AuthorBookSchema_3_row: "AuthorBookSchema_3 db = via_book db AttributeError book_entry"
  by (rule ext) (simp add: AuthorBookSchema_3_def AuthorBookGetter_def getattr_Book_def
      getattr_BookAuthor_def book_entry_def via_book_def split: option.splits)

lemma BookSchema_3_eq:
  "BookSchema_3 db b =
     bindE (mapE (via_author db AttributeError author_entry) (Book_authors db b)) (\<lambda>xs. Inr (book_top b xs))"
  by (simp add: BookSchema_3_def getattr_Book_def book_top_def BookAuthorSchema_3_row)

lemma AuthorSchema_3_eq:
  "AuthorSchema_3 db a =
     bindE (mapE (via_book db AttributeError book_entry) (Author_books db a)) (\<lambda>xs. Inr (author_top a xs))"
  by (simp add: AuthorSchema_3_def getattr_Author_def author_top_def AuthorBookSchema_3_row)

text \<open>File 4: the model nests the linked entity, and \<^verbatim>\<open>dict()\<close> merges it into the entry.\<close>

lemma BookAuthorSchema_4_row:
  "BookAuthorSchema_4 db ba =
     Inr (JObj [(''blurb'', JStr (blurb ba)),
       (''author'', case BookAuthor_author db ba of None \<Rightarrow> JNull
          | Some a \<Rightarrow> JObj [(''id'', JInt (a_id a)), (''name'', JStr (a_name a))])])"
  by (simp add: BookAuthorSchema_4_def RelatedAuthorSchema_def getattr_Author_def
      getattr_BookAuthor_def split: option.splits)

lemma AuthorBookSchema_4_row:
  "AuthorBookSchema_4 db ba =
     Inr (JObj [(''blurb'', JStr (blurb ba)),
       (''book'', case BookAuthor_book db ba of None \<Rightarrow> JNull
          | Some b \<Rightarrow> JObj [(''id'', JInt (b_id b)), (''title'', JStr (b_title b))])])"
  by (simp add: AuthorBookSchema_4_def RelatedBookSchema_def getattr_Book_def
      getattr_BookAuthor_def split: option.splits)

lemma merge_author_row:
  "bindE (BookAuthorSchema_4 db ba) merge_author = via_author db TypeError author_entry_4 ba"
  by (simp add: BookAuthorSchema_4_row merge_author_def via_author_def author_entry_4_def
      split: option.splits)

lemma merge_book_row:
  "bindE (AuthorBookSchema_4 db ba) merge_book = via_book db TypeError book_entry_4 ba"
  by (simp add: AuthorBookSchema_4_row merge_book_def via_book_def book_entry_4_def
      split: option.splits)

lemma BookSchema_dict_top:
  "BookSchema_dict (JObj [(''id'', i), (''title'', t), (''authors'', JList xs)]) =
     bindE (mapE merge_author xs) (\<lambda>ys. Inr (JObj [(''id'', i), (''title'', t), (''authors'', JList ys)]))"
  by (cases "mapE merge_author xs") (simp_all add: BookSchema_dict_def iterate_def)

lemma AuthorSchema_dict_top:
  "AuthorSchema_dict (JObj [(''id'', i), (''name'', n), (''books'', JList xs)]) =
     bindE (mapE merge_book xs) (\<lambda>ys. Inr (JObj [(''id'', i), (''name'', n), (''books'', JList ys)]))"
  by (cases "mapE merge_book xs") (simp_all add: AuthorSchema_dict_def iterate_def)

lemma book_response_4_eq:
  "book_response_4 db b =
     bindE (mapE (via_author db TypeError author_entry_4) (Book_authors db b)) (\<lambda>xs. Inr (book_top b xs))"
proof -
  obtain xs where xs: "mapE (BookAuthorSchema_4 db) (Book_authors db b) = Inr xs"
    using mapE_total [of "BookAuthorSchema_4 db"] by (auto simp: BookAuthorSchema_4_row)
  have "bindE (mapE (BookAuthorSchema_4 db) (Book_authors db b)) (mapE merge_author) =
        mapE (\<lambda>ba. bindE (BookAuthorSchema_4 db ba) merge_author) (Book_authors db b)"
    by (rule mapE_bind_total) (simp add: BookAuthorSchema_4_row)
  then have "mapE merge_author xs = mapE (via_author db TypeError author_entry_4) (Book_authors db b)"
    by (simp add: xs merge_author_row)
  then show ?thesis
    by (simp add: book_response_4_def BookSchema_4_def getattr_Book_def xs
        BookSchema_dict_top book_top_def)
qed

lemma author_response_4_eq:
  "author_response_4 db a =
     bindE (mapE (via_book db TypeError book_entry_4) (Author_books db a)) (\<lambda>xs. Inr (author_top a xs))"
proof -
  obtain xs where xs: "mapE (AuthorBookSchema_4 db) (Author_books db a) = Inr xs"
    using mapE_total [of "AuthorBookSchema_4 db"] by (auto simp: AuthorBookSchema_4_row)
  have "bindE (mapE (AuthorBookSchema_4 db) (Author_books db a)) (mapE merge_book) =
        mapE (\<lambda>ba. bindE (AuthorBookSchema_4 db ba) merge_book) (Author_books db a)"
    by (rule mapE_bind_total) (simp add: AuthorBookSchema_4_row)
  then have "mapE merge_book xs = mapE (via_book db TypeError book_entry_4) (Author_books db a)"
    by (simp add: xs merge_book_row)
  then show ?thesis
    by (simp add: author_response_4_def AuthorSchema_4_def getattr_Author_def xs
        AuthorSchema_dict_top author_top_def)
qed

text \<open>File 2: the schema keeps the first two columns of a result row, and no row makes it fail.\<close>


lemma Book_authors_2_row:
  "row \<in> set (Book_authors_2 db b) \<Longrightarrow>
   \<exists>a ba. a \<in> set (authors db) \<and> ba \<in> set (book_authors db) \<and> a_id a = author_id ba \<and>
     book_id ba = b_id b \<and>
     row = [(''id'', JInt (a_id a)), (''name'', JStr (a_name a)),
            (''blurb'', JStr (blurb ba)), (''book_id'', JInt (book_id ba))]"
  by (auto simp: Book_authors_2_def)

lemma Author_books_2_row:
  assumes "row \<in> set (Author_books_2 db a)"
  shows "\<exists>b ba. b \<in> set (books db) \<and> ba \<in> set (book_authors db) \<and> b_id b = book_id ba \<and>
     author_id ba = a_id a \<and>
     row = [(''id'', JInt (b_id b)), (''title'', JStr (b_title b)),
            (''blurb'', JStr (blurb ba)), (''author_id'', JInt (author_id ba))]"
proof -
  from assms obtain ba b au where "ba \<in> set (book_authors db)" "b \<in> set (books db)"
    "b_id b = book_id ba" "au \<in> set (authors db)" "author_id ba = a_id au" "a_id au = a_id a"
    and row: "row = [(''id'', JInt (b_id b)), (''title'', JStr (b_title b)),
            (''blurb'', JStr (blurb ba)), (''author_id'', JInt (author_id ba))]"
    unfolding Author_books_2_def set_concat set_map by (fastforce split: if_splits)
  then show ?thesis by (intro exI [of _ b] exI [of _ ba]) simp
qed

lemma BookSchema_2_eq:
  "BookSchema_2 db b = Inr (book_top b (map (\<lambda>row. JObj (take 2 row)) (Book_authors_2 db b)))"
proof -
  have "mapE (\<lambda>row. bindE (AuthorBase_2 (map_of row)) (\<lambda>kvs. Inr (JObj kvs))) (Book_authors_2 db b) =
        Inr (map (\<lambda>row. JObj (take 2 row)) (Book_authors_2 db b))"
    by (rule mapE_map) (auto dest!: Book_authors_2_row simp: AuthorBase_2_def)
  then show ?thesis
    by (simp add: BookSchema_2_def BookBase_2_def getattr_Book_def book_top_def)
qed

lemma AuthorSchema_2_eq:
  "AuthorSchema_2 db a = Inr (author_top a (map (\<lambda>row. JObj (take 2 row)) (Author_books_2 db a)))"
proof -
  have "mapE (\<lambda>row. bindE (BookBase_2 (map_of row)) (\<lambda>kvs. Inr (JObj kvs))) (Author_books_2 db a) =
        Inr (map (\<lambda>row. JObj (take 2 row)) (Author_books_2 db a))"
    by (rule mapE_map) (auto dest!: Author_books_2_row simp: BookBase_2_def)
  then show ?thesis
    by (simp add: AuthorSchema_2_def AuthorBase_2_def getattr_Author_def author_top_def)
qed

subsection \<open>The shape of every response\<close>

lemma flat_entries [simp]:
  "flat (author_entry a ba)" "flat (book_entry b ba)" "flat (author_entry_4 a ba)"
  "flat (book_entry_4 b ba)"
  by (simp_all add: flat_def author_entry_def book_entry_def author_entry_4_def book_entry_4_def
      is_object_def keys_def vals_def scalar_def)

lemma via_author_flat: "mapE (via_author db e f) rows = Inr xs \<Longrightarrow> (\<And>a ba. flat (f a ba)) \<Longrightarrow> x \<in> set xs \<Longrightarrow> flat x"
  by (auto dest!: mapE_Inr_setD simp: via_author_def split: option.splits)

lemma via_book_flat: "mapE (via_book db e f) rows = Inr xs \<Longrightarrow> (\<And>a ba. flat (f a ba)) \<Longrightarrow> x \<in> set xs \<Longrightarrow> flat x"
  by (auto dest!: mapE_Inr_setD simp: via_book_def split: option.splits)

lemma via_author_shape:
  assumes "bindE (mapE (via_author db e f) rows) (\<lambda>xs. Inr (book_top b xs)) = Inr j"
    and "\<And>a ba. flat (f a ba)"
  shows "\<exists>xs. j = book_top b xs \<and> (\<forall>x\<in>set xs. flat x)"
proof -
  from assms(1) obtain xs where xs: "mapE (via_author db e f) rows = Inr xs" and j: "j = book_top b xs"
    by (auto simp: bindE_Inr_iff)
  have "\<forall>x\<in>set xs. flat x"
    using via_author_flat [OF xs assms(2)] by blast
  with j show ?thesis by blast
qed

lemma via_book_shape:
  assumes "bindE (mapE (via_book db e f) rows) (\<lambda>xs. Inr (author_top a xs)) = Inr j"
    and "\<And>b ba. flat (f b ba)"
  shows "\<exists>xs. j = author_top a xs \<and> (\<forall>x\<in>set xs. flat x)"
proof -
  from assms(1) obtain xs where xs: "mapE (via_book db e f) rows = Inr xs" and j: "j = author_top a xs"
    by (auto simp: bindE_Inr_iff)
  have "\<forall>x\<in>set xs. flat x"
    using via_book_flat [OF xs assms(2)] by blast
  with j show ?thesis by blast
qed

lemma book_response_shape:
  assumes "book_response v db b = Inr j"
  shows "\<exists>xs. j = book_top b xs \<and> (\<forall>x\<in>set xs. flat x)"
proof (cases v)
  case File_1
  with assms show ?thesis
    by (simp add: book_response_1_eq via_author_shape)
next
  case File_2
  have "\<forall>x\<in>set (map (\<lambda>row. JObj (take 2 row)) (Book_authors_2 db b)). flat x"
    by (auto simp: flat_def is_object_def keys_def vals_def scalar_def dest!: Book_authors_2_row)
  moreover from assms File_2
  have "j = book_top b (map (\<lambda>row. JObj (take 2 row)) (Book_authors_2 db b))"
    by (simp add: BookSchema_2_eq)
  ultimately show ?thesis by blast
next
  case File_3
  with assms show ?thesis
    by (simp add: BookSchema_3_eq via_author_shape)
next
  case File_4
  with assms show ?thesis
    by (simp add: book_response_4_eq via_author_shape)
qed

lemma author_response_shape:
  assumes "author_response v db a = Inr j"
  shows "\<exists>xs. j = author_top a xs \<and> (\<forall>x\<in>set xs. flat x)"
proof (cases v)
  case File_1
  with assms show ?thesis
    by (simp add: author_response_1_eq via_book_shape)
next
  case File_2
  have "\<forall>x\<in>set (map (\<lambda>row. JObj (take 2 row)) (Author_books_2 db a)). flat x"
    by (auto simp: flat_def is_object_def keys_def vals_def scalar_def dest!: Author_books_2_row)
  moreover from assms File_2
  have "j = author_top a (map (\<lambda>row. JObj (take 2 row)) (Author_books_2 db a))"
    by (simp add: AuthorSchema_2_eq)
  ultimately show ?thesis by blast
next
  case File_3
  with assms show ?thesis
    by (simp add: AuthorSchema_3_eq via_book_shape)
next
  case File_4
  with assms show ?thesis
    by (simp add: author_response_4_eq via_book_shape)
qed

lemma related_book_top [simp]: "related (book_top b xs) = xs"
  by (simp add: related_def book_top_def field_def)

lemma related_author_top [simp]: "related (author_top a xs) = xs"
  by (simp add: related_def author_top_def field_def)

lemma keys_top [simp]:
  "keys (book_top b xs) = [''id'', ''title'', ''authors'']"
  "keys (author_top a xs) = [''id'', ''name'', ''books'']"
  by (simp_all add: keys_def book_top_def author_top_def)

lemma app_objects:
  assumes "app v e db = Inr j" "obj \<in> set (objects e j)"
  shows "(\<exists>b xs. obj = book_top b xs \<and> (\<forall>x\<in>set xs. flat x)) \<or>
         (\<exists>a xs. obj = author_top a xs \<and> (\<forall>x\<in>set xs. flat x))"
proof (cases e)
  case (GET_book i)
  with assms show ?thesis by (auto simp: bindE_Inr_iff dest!: book_response_shape)
next
  case GET_books
  with assms show ?thesis
    by (auto simp: bindE_Inr_iff dest!: mapE_Inr_setD book_response_shape)
next
  case (GET_author i)
  with assms show ?thesis by (auto simp: bindE_Inr_iff dest!: author_response_shape)
next
  case GET_authors
  with assms show ?thesis
    by (auto simp: bindE_Inr_iff dest!: mapE_Inr_setD author_response_shape)
qed

subsection \<open>Rows, relationships and requests\<close>

lemma get_db_run_handler:
  "get_db (run_handler v e) w =
     (if stale_connection w then Inl InvalidRequestError else app v e (database w),
      w\<lparr>open_sessions := removeAll (sessions_made w) (sessions_made w # open_sessions w),
        sessions_made := sessions_made w + 1,
        stale_connection := stale_connection w \<or> isl (handler e (database w))\<rparr>)"
proof (cases "stale_connection w")
  case True
  then show ?thesis
    by (simp add: get_db_def Session_def run_handler_def close_def)
next
  case False
  show ?thesis
  proof (cases "handler e (database w)")
    case (Inl err)
    with False show ?thesis
      by (simp add: get_db_def Session_def run_handler_def close_def app_def)
  next
    case (Inr x)
    with False show ?thesis
      by (cases "render v (database w) x")
         (simp_all add: get_db_def Session_def run_handler_def close_def app_def)
  qed
qed

lemma request_eq: "request v e w =
  (respond (if stale_connection w then Inl InvalidRequestError else app v e (database w)),
   w\<lparr>open_sessions := removeAll (sessions_made w) (sessions_made w # open_sessions w),
     sessions_made := sessions_made w + 1,
     stale_connection := stale_connection w \<or> isl (handler e (database w))\<rparr>)"
  by (simp add: request_def get_db_run_handler)

lemma fst_request:
  "fst (request v e w) =
     respond (if stale_connection w then Inl InvalidRequestError else app v e (database w))"
  by (simp add: request_eq)

lemma fst_request_fresh:
  "\<not> stale_connection w \<Longrightarrow> fst (request v e w) = respond (app v e (database w))"
  by (simp add: request_eq)

lemma stale_request:
  "stale_connection (snd (request v e w)) = (stale_connection w \<or> isl (handler e (database w)))"
  by (simp add: request_eq)

lemma database_request: "database (snd (request v e w)) = database w"
  by (simp add: request_eq)

lemma fk_valid_author: "fk_valid db \<Longrightarrow> ba \<in> set (book_authors db) \<Longrightarrow> \<exists>a. BookAuthor_author db ba = Some a"
  by (auto simp: fk_valid_def list_all_iff)

lemma fk_valid_book: "fk_valid db \<Longrightarrow> ba \<in> set (book_authors db) \<Longrightarrow> \<exists>b. BookAuthor_book db ba = Some b"
  by (auto simp: fk_valid_def list_all_iff)

lemma mapE_total_on: "(\<And>x. x \<in> set xs \<Longrightarrow> \<exists>y. f x = Inr y) \<Longrightarrow> \<exists>ys. mapE f xs = Inr ys"
proof (induction xs)
  case Nil
  show ?case by simp
next
  case (Cons x xs)
  then obtain y ys where "f x = Inr y" "mapE f xs = Inr ys" by (meson list.set_intros)
  then show ?case by simp
qed

lemma via_author_total:
  assumes "fk_valid db"
  shows "\<exists>xs. mapE (via_author db e f) (Book_authors db b) = Inr xs"
proof (rule mapE_total_on)
  fix ba assume "ba \<in> set (Book_authors db b)"
  then have "ba \<in> set (book_authors db)" by (simp add: Book_authors_def)
  from fk_valid_author [OF assms this] show "\<exists>y. via_author db e f ba = Inr y"
    by (auto simp: via_author_def)
qed

lemma via_book_total:
  assumes "fk_valid db"
  shows "\<exists>xs. mapE (via_book db e f) (Author_books db a) = Inr xs"
proof (rule mapE_total_on)
  fix ba assume "ba \<in> set (Author_books db a)"
  then have "ba \<in> set (book_authors db)" by (simp add: Author_books_def)
  from fk_valid_book [OF assms this] show "\<exists>y. via_book db e f ba = Inr y"
    by (auto simp: via_book_def)
qed

lemma book_response_4_total: "fk_valid db \<Longrightarrow> \<exists>j. book_response_4 db b = Inr j"
  using via_author_total [of db TypeError author_entry_4 b] by (auto simp: book_response_4_eq)

lemma author_response_4_total: "fk_valid db \<Longrightarrow> \<exists>j. author_response_4 db a = Inr j"
  using via_book_total [of db TypeError book_entry_4 a] by (auto simp: author_response_4_eq)

lemma get_book_cases: "(\<exists>err. get_book db i = Inl err \<and> lookup_error err) \<or> (\<exists>b. get_book db i = Inr b)"
  by (auto simp: get_book_eq lookup_error_def split: list.splits)

lemma get_author_cases: "(\<exists>err. get_author db i = Inl err \<and> lookup_error err) \<or> (\<exists>a. get_author db i = Inr a)"
  by (auto simp: get_author_eq lookup_error_def split: list.splits)

lemma never_multiple_results:
  "get_book db i \<noteq> Inl MultipleResultsFound" "get_author db i \<noteq> Inl MultipleResultsFound"
  by (auto simp: get_book_eq get_author_eq split: list.splits)

lemma requests_database: "database (snd (requests v es w)) = database w"
  by (induction es arbitrary: w) (simp_all add: split_beta database_request)

lemma via_author_rows:
  assumes "bindE (mapE (via_author db e f) rows) (\<lambda>xs. Inr (book_top b xs)) = Inr j"
  shows "\<exists>xs. j = book_top b xs \<and>
           list_all2 (\<lambda>ba x. \<exists>a. BookAuthor_author db ba = Some a \<and> x = f a ba) rows xs"
proof -
  from assms obtain xs where xs: "mapE (via_author db e f) rows = Inr xs" and j: "j = book_top b xs"
    by (auto simp: bindE_Inr_iff)
  from xs have "list_all2 (\<lambda>ba x. via_author db e f ba = Inr x) rows xs"
    by (simp add: mapE_Inr_iff)
  then have "list_all2 (\<lambda>ba x. \<exists>a. BookAuthor_author db ba = Some a \<and> x = f a ba) rows xs"
    by (rule list_all2_mono) (auto simp: via_author_def split: option.splits)
  with j show ?thesis by blast
qed

lemma via_book_rows:
  assumes "bindE (mapE (via_book db e f) rows) (\<lambda>xs. Inr (author_top a xs)) = Inr j"
  shows "\<exists>xs. j = author_top a xs \<and>
           list_all2 (\<lambda>ba x. \<exists>b. BookAuthor_book db ba = Some b \<and> x = f b ba) rows xs"
proof -
  from assms obtain xs where xs: "mapE (via_book db e f) rows = Inr xs" and j: "j = author_top a xs"
    by (auto simp: bindE_Inr_iff)
  from xs have "list_all2 (\<lambda>ba x. via_book db e f ba = Inr x) rows xs"
    by (simp add: mapE_Inr_iff)
  then have "list_all2 (\<lambda>ba x. \<exists>b. BookAuthor_book db ba = Some b \<and> x = f b ba) rows xs"
    by (rule list_all2_mono) (auto simp: via_book_def split: option.splits)
  with j show ?thesis by blast
qed

lemma field_blurb_entries [simp]:
  "field (author_entry a ba) ''blurb'' = Some (JStr (blurb ba))"
  "field (author_entry_4 a ba) ''blurb'' = Some (JStr (blurb ba))"
  "field (book_entry b ba) ''blurb'' = Some (JStr (blurb ba))"
  "field (book_entry_4 b ba) ''blurb'' = Some (JStr (blurb ba))"
  by (simp_all add: field_def author_entry_def author_entry_4_def book_entry_def book_entry_4_def)

lemma field_entries [simp]:
  "field (author_entry a ba) ''id'' = Some (JInt (a_id a))"
  "field (author_entry_4 a ba) ''id'' = Some (JInt (a_id a))"
  "field (author_entry a ba) ''name'' = Some (JStr (a_name a))"
  "field (author_entry_4 a ba) ''name'' = Some (JStr (a_name a))"
  "field (book_entry b ba) ''id'' = Some (JInt (b_id b))"
  "field (book_entry_4 b ba) ''id'' = Some (JInt (b_id b))"
  "field (book_entry b ba) ''title'' = Some (JStr (b_title b))"
  "field (book_entry_4 b ba) ''title'' = Some (JStr (b_title b))"
  by (simp_all add: field_def author_entry_def author_entry_4_def book_entry_def book_entry_4_def)

lemma book_entries_follow_rows:
  assumes "v \<noteq> File_2" and "book_response v db b = Inr j"
  shows "\<exists>xs. j = book_top b xs \<and>
           list_all2 (\<lambda>ba x. \<exists>a. BookAuthor_author db ba = Some a \<and>
              field x ''id'' = Some (JInt (a_id a)) \<and> field x ''name'' = Some (JStr (a_name a)) \<and>
              field x ''blurb'' = Some (JStr (blurb ba))) (Book_authors db b) xs"
proof -
  have "\<exists>f. (\<forall>a ba. field (f a ba) ''id'' = Some (JInt (a_id a)) \<and>
                field (f a ba) ''name'' = Some (JStr (a_name a)) \<and>
                field (f a ba) ''blurb'' = Some (JStr (blurb ba))) \<and>
           (\<exists>xs. j = book_top b xs \<and>
              list_all2 (\<lambda>ba x. \<exists>a. BookAuthor_author db ba = Some a \<and> x = f a ba) (Book_authors db b) xs)"
  proof (cases v)
    case File_1
    with assms(2) have "\<exists>xs. j = book_top b xs \<and>
        list_all2 (\<lambda>ba x. \<exists>a. BookAuthor_author db ba = Some a \<and> x = author_entry a ba) (Book_authors db b) xs"
      by (simp add: book_response_1_eq via_author_rows)
    then show ?thesis by (intro exI [of _ author_entry]) simp
  next
    case File_2
    with assms(1) show ?thesis by simp
  next
    case File_3
    with assms(2) have "\<exists>xs. j = book_top b xs \<and>
        list_all2 (\<lambda>ba x. \<exists>a. BookAuthor_author db ba = Some a \<and> x = author_entry a ba) (Book_authors db b) xs"
      by (simp add: BookSchema_3_eq via_author_rows)
    then show ?thesis by (intro exI [of _ author_entry]) simp
  next
    case File_4
    with assms(2) have "\<exists>xs. j = book_top b xs \<and>
        list_all2 (\<lambda>ba x. \<exists>a. BookAuthor_author db ba = Some a \<and> x = author_entry_4 a ba) (Book_authors db b) xs"
      by (simp add: book_response_4_eq via_author_rows)
    then show ?thesis by (intro exI [of _ author_entry_4]) simp
  qed
  then obtain f xs where f: "\<And>a ba. field (f a ba) ''id'' = Some (JInt (a_id a)) \<and>
                field (f a ba) ''name'' = Some (JStr (a_name a)) \<and>
                field (f a ba) ''blurb'' = Some (JStr (blurb ba))"
    and j: "j = book_top b xs"
    and xs: "list_all2 (\<lambda>ba x. \<exists>a. BookAuthor_author db ba = Some a \<and> x = f a ba) (Book_authors db b) xs"
    by blast
  from xs have "list_all2 (\<lambda>ba x. \<exists>a. BookAuthor_author db ba = Some a \<and>
              field x ''id'' = Some (JInt (a_id a)) \<and> field x ''name'' = Some (JStr (a_name a)) \<and>
              field x ''blurb'' = Some (JStr (blurb ba))) (Book_authors db b) xs"
    by (rule list_all2_mono) (use f in auto)
  with j show ?thesis by blast
qed

lemma author_entries_follow_rows:
  assumes "v \<noteq> File_2" and "author_response v db a = Inr j"
  shows "\<exists>xs. j = author_top a xs \<and>
           list_all2 (\<lambda>ba x. \<exists>b. BookAuthor_book db ba = Some b \<and>
              field x ''id'' = Some (JInt (b_id b)) \<and> field x ''title'' = Some (JStr (b_title b)) \<and>
              field x ''blurb'' = Some (JStr (blurb ba))) (Author_books db a) xs"
proof -
  have "\<exists>f. (\<forall>b ba. field (f b ba) ''id'' = Some (JInt (b_id b)) \<and>
                field (f b ba) ''title'' = Some (JStr (b_title b)) \<and>
                field (f b ba) ''blurb'' = Some (JStr (blurb ba))) \<and>
           (\<exists>xs. j = author_top a xs \<and>
              list_all2 (\<lambda>ba x. \<exists>b. BookAuthor_book db ba = Some b \<and> x = f b ba) (Author_books db a) xs)"
  proof (cases v)
    case File_1
    with assms(2) have "\<exists>xs. j = author_top a xs \<and>
        list_all2 (\<lambda>ba x. \<exists>b. BookAuthor_book db ba = Some b \<and> x = book_entry b ba) (Author_books db a) xs"
      by (simp add: author_response_1_eq via_book_rows)
    then show ?thesis by (intro exI [of _ book_entry]) simp
  next
    case File_2
    with assms(1) show ?thesis by simp
  next
    case File_3
    with assms(2) have "\<exists>xs. j = author_top a xs \<and>
        list_all2 (\<lambda>ba x. \<exists>b. BookAuthor_book db ba = Some b \<and> x = book_entry b ba) (Author_books db a) xs"
      by (simp add: AuthorSchema_3_eq via_book_rows)
    then show ?thesis by (intro exI [of _ book_entry]) simp
  next
    case File_4
    with assms(2) have "\<exists>xs. j = author_top a xs \<and>
        list_all2 (\<lambda>ba x. \<exists>b. BookAuthor_book db ba = Some b \<and> x = book_entry_4 b ba) (Author_books db a) xs"
      by (simp add: author_response_4_eq via_book_rows)
    then show ?thesis by (intro exI [of _ book_entry_4]) simp
  qed
  then obtain f xs where f: "\<And>b ba. field (f b ba) ''id'' = Some (JInt (b_id b)) \<and>
                field (f b ba) ''title'' = Some (JStr (b_title b)) \<and>
                field (f b ba) ''blurb'' = Some (JStr (blurb ba))"
    and j: "j = author_top a xs"
    and xs: "list_all2 (\<lambda>ba x. \<exists>b. BookAuthor_book db ba = Some b \<and> x = f b ba) (Author_books db a) xs"
    by blast
  from xs have "list_all2 (\<lambda>ba x. \<exists>b. BookAuthor_book db ba = Some b \<and>
              field x ''id'' = Some (JInt (b_id b)) \<and> field x ''title'' = Some (JStr (b_title b)) \<and>
              field x ''blurb'' = Some (JStr (blurb ba))) (Author_books db a) xs"
    by (rule list_all2_mono) (use f in auto)
  with j show ?thesis by blast
qed

text \<open>
  Every file: an entry has no foreign-key column and no nested object.
\<close>

lemma entries_flat:
  assumes "app v e db = Inr j" "obj \<in> set (objects e j)" "x \<in> set (related obj)"
  shows "is_object x \<and> set (keys x) \<inter> {''book_id'', ''author_id'', ''author'', ''book''} = {} \<and>
         set (keys x) \<subseteq> {''id'', ''name'', ''title'', ''blurb''} \<and> list_all scalar (vals x)"
proof -
  from app_objects [OF assms(1,2)] assms(3) have "flat x" by auto
  then show ?thesis by (auto simp: flat_def)
qed


text \<open>
  Files 1, 3 and 4: the entries of a rendered entity are the projections of its
  association rows, one for each row and in their order.
\<close>

lemma list_all2_setD2: "list_all2 P xs ys \<Longrightarrow> y \<in> set ys \<Longrightarrow> \<exists>x\<in>set xs. P x y"
  by (induction rule: list_all2_induct) auto

lemma book_response_merged:
  assumes "v \<noteq> File_2" and "book_response v db b = Inr j"
  shows "\<exists>xs. j = book_top b xs \<and>
           list_all2 (\<lambda>ba x. \<exists>a. BookAuthor_author db ba = Some a \<and>
              x = (if v = File_4 then author_entry_4 a ba else author_entry a ba))
             (Book_authors db b) xs"
proof (cases v)
  case File_1
  with assms(2) show ?thesis by (simp add: book_response_1_eq via_author_rows)
next
  case File_2
  with assms(1) show ?thesis by simp
next
  case File_3
  with assms(2) show ?thesis by (simp add: BookSchema_3_eq via_author_rows)
next
  case File_4
  with assms(2) show ?thesis by (simp add: book_response_4_eq via_author_rows)
qed

lemma author_response_merged:
  assumes "v \<noteq> File_2" and "author_response v db a = Inr j"
  shows "\<exists>xs. j = author_top a xs \<and>
           list_all2 (\<lambda>ba x. \<exists>b. BookAuthor_book db ba = Some b \<and>
              x = (if v = File_4 then book_entry_4 b ba else book_entry b ba))
             (Author_books db a) xs"
proof (cases v)
  case File_1
  with assms(2) show ?thesis by (simp add: author_response_1_eq via_book_rows)
next
  case File_2
  with assms(1) show ?thesis by simp
next
  case File_3
  with assms(2) show ?thesis by (simp add: AuthorSchema_3_eq via_book_rows)
next
  case File_4
  with assms(2) show ?thesis by (simp add: author_response_4_eq via_book_rows)
qed

lemma app_rendered:
  assumes "app v e db = Inr j" and "obj \<in> set (objects e j)"
  shows "(\<exists>b. book_response v db b = Inr obj) \<or> (\<exists>a. author_response v db a = Inr obj)"
proof (cases e)
  case (GET_book i)
  with assms show ?thesis by (auto simp: bindE_Inr_iff)
next
  case GET_books
  with assms show ?thesis by (auto simp: bindE_Inr_iff dest!: mapE_Inr_setD)
next
  case (GET_author i)
  with assms show ?thesis by (auto simp: bindE_Inr_iff)
next
  case GET_authors
  with assms show ?thesis by (auto simp: bindE_Inr_iff dest!: mapE_Inr_setD)
qed

lemma entries_merged:
  assumes "v \<noteq> File_2" and "app v e db = Inr j" and "obj \<in> set (objects e j)"
    and "x \<in> set (related obj)"
  shows "\<exists>ba\<in>set (book_authors db).
           (\<exists>a. BookAuthor_author db ba = Some a \<and>
              x = (if v = File_4 then author_entry_4 a ba else author_entry a ba)) \<or>
           (\<exists>b. BookAuthor_book db ba = Some b \<and>
              x = (if v = File_4 then book_entry_4 b ba else book_entry b ba))"
proof -
  from app_rendered [OF assms(2,3)] show ?thesis
  proof
    assume "\<exists>b. book_response v db b = Inr obj"
    then obtain b xs where obj: "obj = book_top b xs"
      and rows: "list_all2 (\<lambda>ba x. \<exists>a. BookAuthor_author db ba = Some a \<and>
              x = (if v = File_4 then author_entry_4 a ba else author_entry a ba))
             (Book_authors db b) xs"
      using book_response_merged [OF assms(1)] by blast
    from obj assms(4) have "x \<in> set xs" by simp
    from list_all2_setD2 [OF rows this] obtain ba a' where "ba \<in> set (Book_authors db b)"
      and *: "BookAuthor_author db ba = Some a'"
        "x = (if v = File_4 then author_entry_4 a' ba else author_entry a' ba)"
      by blast
    then have "ba \<in> set (book_authors db)" by (simp add: Book_authors_def)
    with * show ?thesis by blast
  next
    assume "\<exists>a. author_response v db a = Inr obj"
    then obtain a xs where obj: "obj = author_top a xs"
      and rows: "list_all2 (\<lambda>ba x. \<exists>b. BookAuthor_book db ba = Some b \<and>
              x = (if v = File_4 then book_entry_4 b ba else book_entry b ba))
             (Author_books db a) xs"
      using author_response_merged [OF assms(1)] by blast
    from obj assms(4) have "x \<in> set xs" by simp
    from list_all2_setD2 [OF rows this] obtain ba b' where "ba \<in> set (Author_books db a)"
      and *: "BookAuthor_book db ba = Some b'"
        "x = (if v = File_4 then book_entry_4 b' ba else book_entry b' ba)"
      by blast
    then have "ba \<in> set (book_authors db)" by (simp add: Author_books_def)
    with * show ?thesis by blast
  qed
qed

subsection \<open>The seeded store\<close>

lemma seeded_eq:
  "seeded =
     \<lparr>books = [\<lparr>b_id = 1, b_title = ''Dead People Who'd Be Influencers Today''\<rparr>,
               \<lparr>b_id = 2, b_title = ''How To Make Friends In Your 30s''\<rparr>],
      authors = [\<lparr>a_id = 1, a_name = ''Blu Renolds''\<rparr>, \<lparr>a_id = 2, a_name = ''Chip Egan''\<rparr>,
                 \<lparr>a_id = 3, a_name = ''Alyssa Wyatt''\<rparr>],
      book_authors = [\<lparr>book_id = 1, author_id = 1, blurb = ''Blue wrote chapter 1''\<rparr>,
                      \<lparr>book_id = 1, author_id = 2, blurb = ''Chip wrote chapter 2''\<rparr>,
                      \<lparr>book_id = 2, author_id = 1, blurb = ''Blue wrote chapters 1-3''\<rparr>,
                      \<lparr>book_id = 2, author_id = 3, blurb = ''Alyssa wrote chapter 4''\<rparr>]\<rparr>"
  by (simp add: seeded_def seed_def create_all_def add_Book_def add_Author_def
      add_BookAuthor_def next_id_def)

lemma startup_database [simp]: "database startup = seeded"
  by (simp add: startup_def)

lemma fk_valid_seeded: "fk_valid seeded"
  by (simp add: fk_valid_def seeded_eq BookAuthor_author_def BookAuthor_book_def)

lemma file_4_book_1:
  "app File_4 (GET_book 1) seeded =
     Inr (JObj [(''id'', JInt 1), (''title'', JStr ''Dead People Who'd Be Influencers Today''),
       (''authors'', JList
          [JObj [(''blurb'', JStr ''Blue wrote chapter 1''), (''id'', JInt 1), (''name'', JStr ''Blu Renolds'')],
           JObj [(''blurb'', JStr ''Chip wrote chapter 2''), (''id'', JInt 2), (''name'', JStr ''Chip Egan'')]])])"
  by (simp add: get_book_eq int64_def seeded_eq book_response_4_eq Book_authors_def index_order_def via_author_def
      BookAuthor_author_def author_entry_4_def book_top_def)

lemma file_1_book_1:
  "app File_1 (GET_book 1) seeded =
     Inr (JObj [(''id'', JInt 1), (''title'', JStr ''Dead People Who'd Be Influencers Today''),
       (''authors'', JList
          [JObj [(''id'', JInt 1), (''name'', JStr ''Blu Renolds''), (''blurb'', JStr ''Blue wrote chapter 1'')],
           JObj [(''id'', JInt 2), (''name'', JStr ''Chip Egan''), (''blurb'', JStr ''Chip wrote chapter 2'')]])])"
  by (simp add: get_book_eq int64_def seeded_eq book_response_1_eq Book_authors_def index_order_def via_author_def
      BookAuthor_author_def author_entry_def book_top_def)

lemma file_2_book_1:
  "app File_2 (GET_book 1) seeded =
     Inr (JObj [(''id'', JInt 1), (''title'', JStr ''Dead People Who'd Be Influencers Today''),
       (''authors'', JList
          [JObj [(''id'', JInt 1), (''name'', JStr ''Blu Renolds'')],
           JObj [(''id'', JInt 2), (''name'', JStr ''Chip Egan'')]])])"
  by (simp add: get_book_eq int64_def seeded_eq BookSchema_2_def BookBase_2_def AuthorBase_2_def
      getattr_Book_def Book_authors_2_def)

lemma file_2_author_1:
  "app File_2 (GET_author 1) seeded =
     Inr (JObj [(''id'', JInt 1), (''name'', JStr ''Blu Renolds''),
       (''books'', JList
          [JObj [(''id'', JInt 1), (''title'', JStr ''Dead People Who'd Be Influencers Today'')],
           JObj [(''id'', JInt 2), (''title'', JStr ''How To Make Friends In Your 30s'')]])])"
  by (simp add: get_author_eq int64_def seeded_eq AuthorSchema_2_def BookBase_2_def AuthorBase_2_def
      getattr_Author_def Author_books_2_def)

lemma file_3_author_1:
  "app File_3 (GET_author 1) seeded =
     Inr (JObj [(''id'', JInt 1), (''name'', JStr ''Blu Renolds''),
       (''books'', JList
          [JObj [(''id'', JInt 1), (''title'', JStr ''Dead People Who'd Be Influencers Today''),
                 (''blurb'', JStr ''Blue wrote chapter 1'')],
           JObj [(''id'', JInt 2), (''title'', JStr ''How To Make Friends In Your 30s''),
                 (''blurb'', JStr ''Blue wrote chapters 1-3'')]])])"
  by (simp add: get_author_eq int64_def seeded_eq AuthorSchema_3_eq Author_books_def index_order_def via_book_def
      BookAuthor_book_def book_entry_def author_top_def)

lemma file_1_book_2:
  "app File_1 (GET_book 2) seeded =
     Inr (JObj [(''id'', JInt 2), (''title'', JStr ''How To Make Friends In Your 30s''),
       (''authors'', JList
          [JObj [(''id'', JInt 1), (''name'', JStr ''Blu Renolds''), (''blurb'', JStr ''Blue wrote chapters 1-3'')],
           JObj [(''id'', JInt 3), (''name'', JStr ''Alyssa Wyatt''), (''blurb'', JStr ''Alyssa wrote chapter 4'')]])])"
  by (simp add: get_book_eq int64_def seeded_eq book_response_1_eq Book_authors_def index_order_def via_author_def
      BookAuthor_author_def author_entry_def book_top_def)

lemma file_2_book_2:
  "app File_2 (GET_book 2) seeded =
     Inr (JObj [(''id'', JInt 2), (''title'', JStr ''How To Make Friends In Your 30s''),
       (''authors'', JList
          [JObj [(''id'', JInt 1), (''name'', JStr ''Blu Renolds'')],
           JObj [(''id'', JInt 3), (''name'', JStr ''Alyssa Wyatt'')]])])"
  by (simp add: get_book_eq int64_def seeded_eq BookSchema_2_def BookBase_2_def AuthorBase_2_def
      getattr_Book_def Book_authors_2_def)

lemma file_2_books:
  "app File_2 GET_books seeded =
     Inr (JList
       [JObj [(''id'', JInt 1), (''title'', JStr ''Dead People Who'd Be Influencers Today''),
          (''authors'', JList
             [JObj [(''id'', JInt 1), (''name'', JStr ''Blu Renolds'')],
              JObj [(''id'', JInt 2), (''name'', JStr ''Chip Egan'')]])],
        JObj [(''id'', JInt 2), (''title'', JStr ''How To Make Friends In Your 30s''),
          (''authors'', JList
             [JObj [(''id'', JInt 1), (''name'', JStr ''Blu Renolds'')],
              JObj [(''id'', JInt 3), (''name'', JStr ''Alyssa Wyatt'')]])]])"
  by (simp add: get_books_def seeded_eq BookSchema_2_def BookBase_2_def AuthorBase_2_def
      getattr_Book_def Book_authors_2_def)

text \<open>
  Both exits of a request, a missing referenced row in files 1, 3 and 4, a key that two
  rows share, and keys that SQLite cannot hold.
\<close>

lemma session_closed_when_handler_raises:
  "get_db (run_handler File_1 (GET_book 999)) startup =
     (Inl NoResultFound, startup\<lparr>open_sessions := [], sessions_made := 2, stale_connection := True\<rparr>)"
  by (simp add: get_db_run_handler startup_def get_book_eq int64_def seeded_eq)

lemma session_closed_when_handler_returns:
  "snd (get_db (run_handler File_2 (GET_book 1)) startup) = startup\<lparr>open_sessions := [], sessions_made := 2\<rparr> \<and>
   (\<exists>j. fst (get_db (run_handler File_2 (GET_book 1)) startup) = Inr j)"
proof -
  have "\<not> isl (handler (GET_book 1) seeded)"
    by (simp add: get_book_eq int64_def seeded_eq)
  then show ?thesis
    by (simp add: get_db_run_handler file_2_book_1 startup_def del: app_simps)
qed

lemma dict_raises_on_dangling_row:
  "app File_4 (GET_book 1) (seeded\<lparr>authors := []\<rparr>) = Inl TypeError"
  by (simp add: get_book_eq int64_def seeded_eq book_response_4_eq Book_authors_def index_order_def via_author_def
      BookAuthor_author_def)

lemma file_1_and_3_on_dangling_row:
  "app File_1 (GET_book 1) (seeded\<lparr>authors := []\<rparr>) = Inl ValidationError"
  "app File_3 (GET_book 1) (seeded\<lparr>authors := []\<rparr>) = Inl AttributeError"
  by (simp_all add: get_book_eq int64_def seeded_eq book_response_1_eq BookSchema_3_eq
      Book_authors_def index_order_def via_author_def BookAuthor_author_def)

lemma duplicate_key_is_one_identity:
  "get_book (seeded\<lparr>books := books seeded @ [\<lparr>b_id = 1, b_title = ''Another''\<rparr>]\<rparr>) 1 =
     Inr \<lparr>b_id = 1, b_title = ''Dead People Who'd Be Influencers Today''\<rparr>"
  by (simp add: get_book_eq int64_def seeded_eq)

lemma id_outside_64_bits:
  "get_book seeded (2 ^ 63) = Inl OverflowError" "get_author seeded (- (2 ^ 63) - 1) = Inl OverflowError"
  by (simp_all add: get_book_eq get_author_eq int64_def)

subsection \<open>Agreement between the files\<close>

text \<open>
  Files 1 and 3 send the same response to every request on every store; file 4 sends the
  same JSON document as file 3, with the keys of each entry in another order.
\<close>

lemma rel_mapE:
  assumes "\<And>x. rel_sum (\<lambda>e e'. True) R (f x) (g x)"
  shows "rel_sum (\<lambda>e e'. True) (list_all2 R) (mapE f xs) (mapE g xs)"
proof (induction xs)
  case Nil
  show ?case by simp
next
  case (Cons x xs)
  show ?case
  proof (cases "f x")
    case (Inl e)
    with assms [of x] show ?thesis by (cases "g x") simp_all
  next
    case fx: (Inr y)
    with assms [of x] obtain y' where gx: "g x = Inr y'" and yy: "R y y'"
      by (cases "g x") simp_all
    show ?thesis
    proof (cases "mapE f xs")
      case (Inl e)
      with Cons fx gx show ?thesis by (cases "mapE g xs") simp_all
    next
      case (Inr ys)
      with Cons fx gx yy show ?thesis by (cases "mapE g xs") simp_all
    qed
  qed
qed

lemma rel_bindE:
  assumes "rel_sum (\<lambda>e e'. True) R m m'" and "\<And>x y. R x y \<Longrightarrow> rel_sum (\<lambda>e e'. True) S (f x) (g y)"
  shows "rel_sum (\<lambda>e e'. True) S (bindE m f) (bindE m' g)"
proof (cases m)
  case (Inl e)
  with assms(1) show ?thesis by (cases m') simp_all
next
  case (Inr x)
  with assms(1) obtain y where "m' = Inr y" "R x y" by (cases m') simp_all
  with Inr assms(2) show ?thesis by simp
qed

lemma rel_sum_refl_eq [simp]: "rel_sum (\<lambda>e e'. True) (=) r r"
  by (cases r) simp_all

lemma rel_via_author:
  "(\<And>a. R (f a ba) (f' a ba)) \<Longrightarrow> rel_sum (\<lambda>e e'. True) R (via_author db e f ba) (via_author db e' f' ba)"
  by (simp add: via_author_def split: option.splits)

lemma rel_via_book:
  "(\<And>b. R (f b ba) (f' b ba)) \<Longrightarrow> rel_sum (\<lambda>e e'. True) R (via_book db e f ba) (via_book db e' f' ba)"
  by (simp add: via_book_def split: option.splits)

lemma rel_rows_author:
  "(\<And>a ba. R (f a ba) (f' a ba)) \<Longrightarrow>
   rel_sum (\<lambda>e e'. True) (list_all2 R) (mapE (via_author db e f) rows) (mapE (via_author db e' f') rows)"
  by (rule rel_mapE) (rule rel_via_author)

lemma rel_rows_book:
  "(\<And>b ba. R (f b ba) (f' b ba)) \<Longrightarrow>
   rel_sum (\<lambda>e e'. True) (list_all2 R) (mapE (via_book db e f) rows) (mapE (via_book db e' f') rows)"
  by (rule rel_mapE) (rule rel_via_book)

lemma rel_book_1_3: "rel_sum (\<lambda>e e'. True) (=) (book_response File_1 db b) (book_response File_3 db b)"
  unfolding book_response.simps book_response_1_eq BookSchema_3_eq
proof (rule rel_bindE [where R = "list_all2 (=)"])
  show "rel_sum (\<lambda>e e'. True) (list_all2 (=))
     (mapE (via_author db ValidationError author_entry) (Book_authors db b))
     (mapE (via_author db AttributeError author_entry) (Book_authors db b))"
    by (rule rel_rows_author) simp
qed (simp add: list.rel_eq)

lemma rel_author_1_3: "rel_sum (\<lambda>e e'. True) (=) (author_response File_1 db a) (author_response File_3 db a)"
  unfolding author_response.simps author_response_1_eq AuthorSchema_3_eq
proof (rule rel_bindE [where R = "list_all2 (=)"])
  show "rel_sum (\<lambda>e e'. True) (list_all2 (=))
     (mapE (via_book db ValidationError book_entry) (Author_books db a))
     (mapE (via_book db AttributeError book_entry) (Author_books db a))"
    by (rule rel_rows_book) simp
qed (simp add: list.rel_eq)

lemma files_1_and_3_agree: "respond (app File_1 e db) = respond (app File_3 e db)"
proof -
  have "rel_sum (\<lambda>e e'. True) (=) (app File_1 e db) (app File_3 e db)"
  proof (cases e)
    case (GET_book i)
    then show ?thesis
      by (auto intro!: rel_bindE [where R = "(=)"] rel_book_1_3)
  next
    case GET_books
    have "rel_sum (\<lambda>e e'. True) (list_all2 (=))
        (mapE (book_response File_1 db) (get_books db)) (mapE (book_response File_3 db) (get_books db))"
      by (rule rel_mapE) (rule rel_book_1_3)
    then have "rel_sum (\<lambda>e e'. True) (=)
        (bindE (mapE (book_response File_1 db) (get_books db)) (\<lambda>xs. Inr (JList xs)))
        (bindE (mapE (book_response File_3 db) (get_books db)) (\<lambda>xs. Inr (JList xs)))"
      by (rule rel_bindE) (simp add: list.rel_eq)
    with GET_books show ?thesis by simp
  next
    case (GET_author i)
    then show ?thesis
      by (auto intro!: rel_bindE [where R = "(=)"] rel_author_1_3)
  next
    case GET_authors
    have "rel_sum (\<lambda>e e'. True) (list_all2 (=))
        (mapE (author_response File_1 db) (get_authors db)) (mapE (author_response File_3 db) (get_authors db))"
      by (rule rel_mapE) (rule rel_author_1_3)
    then have "rel_sum (\<lambda>e e'. True) (=)
        (bindE (mapE (author_response File_1 db) (get_authors db)) (\<lambda>xs. Inr (JList xs)))
        (bindE (mapE (author_response File_3 db) (get_authors db)) (\<lambda>xs. Inr (JList xs)))"
      by (rule rel_bindE) (simp add: list.rel_eq)
    with GET_authors show ?thesis by simp
  qed
  then show ?thesis
    by (cases "app File_1 e db"; cases "app File_3 e db") (simp_all add: respond_def)
qed

lemma canonical_entries:
  "canonical (author_entry_4 a ba) = canonical (author_entry a ba)"
  "canonical (book_entry_4 b ba) = canonical (book_entry b ba)"
  by (simp_all add: author_entry_4_def author_entry_def book_entry_4_def book_entry_def)

lemma canonical_map:
  "list_all2 (\<lambda>x y. canonical x = canonical y) xs ys \<Longrightarrow> map canonical xs = map canonical ys"
  by (induction rule: list_all2_induct) simp_all

lemma canonical_tops:
  "list_all2 (\<lambda>x y. canonical x = canonical y) xs ys \<Longrightarrow> canonical (book_top b xs) = canonical (book_top b ys)"
  "list_all2 (\<lambda>x y. canonical x = canonical y) xs ys \<Longrightarrow> canonical (author_top a xs) = canonical (author_top a ys)"
  "list_all2 (\<lambda>x y. canonical x = canonical y) xs ys \<Longrightarrow> canonical (JList xs) = canonical (JList ys)"
  by (simp_all add: book_top_def author_top_def canonical_map)

lemma rel_book_4_3:
  "rel_sum (\<lambda>e e'. True) (\<lambda>x y. canonical x = canonical y) (book_response File_4 db b) (book_response File_3 db b)"
  unfolding book_response.simps book_response_4_eq BookSchema_3_eq
proof (rule rel_bindE [where R = "list_all2 (\<lambda>x y. canonical x = canonical y)"])
  show "rel_sum (\<lambda>e e'. True) (list_all2 (\<lambda>x y. canonical x = canonical y))
     (mapE (via_author db TypeError author_entry_4) (Book_authors db b))
     (mapE (via_author db AttributeError author_entry) (Book_authors db b))"
    by (rule rel_rows_author) (rule canonical_entries)
qed (simp add: canonical_tops)

lemma rel_author_4_3:
  "rel_sum (\<lambda>e e'. True) (\<lambda>x y. canonical x = canonical y) (author_response File_4 db a) (author_response File_3 db a)"
  unfolding author_response.simps author_response_4_eq AuthorSchema_3_eq
proof (rule rel_bindE [where R = "list_all2 (\<lambda>x y. canonical x = canonical y)"])
  show "rel_sum (\<lambda>e e'. True) (list_all2 (\<lambda>x y. canonical x = canonical y))
     (mapE (via_book db TypeError book_entry_4) (Author_books db a))
     (mapE (via_book db AttributeError book_entry) (Author_books db a))"
    by (rule rel_rows_book) (rule canonical_entries)
qed (simp add: canonical_tops)

lemma files_3_and_4_agree_up_to_key_order:
  "canonical_response (respond (app File_4 e db)) = canonical_response (respond (app File_3 e db))"
proof -
  have "rel_sum (\<lambda>e e'. True) (\<lambda>x y. canonical x = canonical y) (app File_4 e db) (app File_3 e db)"
  proof (cases e)
    case (GET_book i)
    then show ?thesis
      by (auto intro!: rel_bindE [where R = "(=)"] rel_book_4_3)
  next
    case GET_books
    have "rel_sum (\<lambda>e e'. True) (list_all2 (\<lambda>x y. canonical x = canonical y))
        (mapE (book_response File_4 db) (get_books db)) (mapE (book_response File_3 db) (get_books db))"
      by (rule rel_mapE) (rule rel_book_4_3)
    then have "rel_sum (\<lambda>e e'. True) (\<lambda>x y. canonical x = canonical y)
        (bindE (mapE (book_response File_4 db) (get_books db)) (\<lambda>xs. Inr (JList xs)))
        (bindE (mapE (book_response File_3 db) (get_books db)) (\<lambda>xs. Inr (JList xs)))"
      by (rule rel_bindE) (simp add: canonical_map)
    with GET_books show ?thesis by simp
  next
    case (GET_author i)
    then show ?thesis
      by (auto intro!: rel_bindE [where R = "(=)"] rel_author_4_3)
  next
    case GET_authors
    have "rel_sum (\<lambda>e e'. True) (list_all2 (\<lambda>x y. canonical x = canonical y))
        (mapE (author_response File_4 db) (get_authors db)) (mapE (author_response File_3 db) (get_authors db))"
      by (rule rel_mapE) (rule rel_author_4_3)
    then have "rel_sum (\<lambda>e e'. True) (\<lambda>x y. canonical x = canonical y)
        (bindE (mapE (author_response File_4 db) (get_authors db)) (\<lambda>xs. Inr (JList xs)))
        (bindE (mapE (author_response File_3 db) (get_authors db)) (\<lambda>xs. Inr (JList xs)))"
      by (rule rel_bindE) (simp add: canonical_map)
    with GET_authors show ?thesis by simp
  qed
  then show ?thesis
    by (cases "app File_4 e db"; cases "app File_3 e db")
       (simp_all add: respond_def canonical_response_def)
qed

lemma file_1_model_declares_blurb:
  "BookSchema_1 db b = Inr m \<Longrightarrow> field m ''blurb'' = Some JNull \<and> field (exclude {''blurb''} m) ''blurb'' = None"
  by (auto simp: BookSchema_1_def BookBase_1_Book bindE_Inr_iff field_def)

section \<open>The claims\<close>

subsection \<open>Lookup of a key that matches no row\<close>

text \<open>
  C1 (as amended). On a singular route (\<^verbatim>\<open>GET /books/{id}\<close>, \<^verbatim>\<open>GET /authors/{id}\<close>), in
  every file, a key that matches no row makes the lookup raise: \<^verbatim>\<open>NoResultFound\<close> from
  \<^verbatim>\<open>one()\<close> when the key fits in 64 bits, \<^verbatim>\<open>OverflowError\<close> from binding it when it does not
  (and \<^verbatim>\<open>InvalidRequestError\<close> before either, when the pool holds a closed connection).
  Nothing catches the exception, so the request is answered with status 500 and the text
  \<^verbatim>\<open>Internal Server Error\<close>: a server error, not a client error, and not an empty or null
  body. No key makes a lookup raise \<^verbatim>\<open>MultipleResultsFound\<close>: the key is the primary key,
  and rows of one identity are one entity.
\<close>

theorem lookup_failure_is_unhandled:
  assumes "singular e" and "rows_matched e (database w) = 0"
  shows "fst (get_db (run_handler v e) w) =
           Inl (if stale_connection w then InvalidRequestError
                else if int64 (requested_id e) then NoResultFound else OverflowError) \<and>
         fst (request v e w) = Response 500 (Text ''Internal Server Error'') \<and>
         server_error (fst (request v e w)) \<and> \<not> client_error (fst (request v e w)) \<and>
         get_book db i \<noteq> Inl MultipleResultsFound \<and> get_author db i \<noteq> Inl MultipleResultsFound"
proof -
  have app: "app v e (database w) =
      Inl (if int64 (requested_id e) then NoResultFound else OverflowError)"
  proof (cases e)
    case (GET_book i)
    with assms(2) show ?thesis by (simp add: get_book_eq)
  next
    case (GET_author i)
    with assms(2) show ?thesis by (simp add: get_author_eq)
  next
    case GET_books
    with assms(1) show ?thesis by simp
  next
    case GET_authors
    with assms(1) show ?thesis by simp
  qed
  then have raised: "fst (get_db (run_handler v e) w) =
           Inl (if stale_connection w then InvalidRequestError
                else if int64 (requested_id e) then NoResultFound else OverflowError)"
    by (simp add: get_db_run_handler)
  from app have "fst (request v e w) = Response 500 (Text ''Internal Server Error'')"
    by (simp add: fst_request respond_def)
  with raised show ?thesis
    by (simp add: server_error_def client_error_def never_multiple_results)
qed

text \<open>
  The hypotheses hold on the seeded store for \<^verbatim>\<open>GET /books/999\<close>, whose key fits, and for
  \<^verbatim>\<open>GET /authors/9223372036854775808\<close>, whose key does not.
\<close>

theorem lookup_failure_is_unhandled_witness:
  "singular (GET_book 999) \<and> rows_matched (GET_book 999) (database startup) = 0 \<and>
   fst (get_db (run_handler File_1 (GET_book 999)) startup) = Inl NoResultFound \<and>
   fst (request File_1 (GET_book 999) startup) = Response 500 (Text ''Internal Server Error'') \<and>
   singular (GET_author (2 ^ 63)) \<and> rows_matched (GET_author (2 ^ 63)) (database startup) = 0 \<and>
   fst (get_db (run_handler File_3 (GET_author (2 ^ 63))) startup) = Inl OverflowError \<and>
   fst (request File_3 (GET_author (2 ^ 63)) startup) = Response 500 (Text ''Internal Server Error'')"
proof -
  have h1: "singular (GET_book 999)" by simp
  have h2: "rows_matched (GET_book 999) (database startup) = 0" by (simp add: seeded_eq)
  have h3: "singular (GET_author (2 ^ 63))" by simp
  have h4: "rows_matched (GET_author (2 ^ 63)) (database startup) = 0" by (simp add: seeded_eq)
  have k0: "\<not> stale_connection startup" by (simp add: startup_def)
  have k1: "int64 (requested_id (GET_book 999))" by (simp add: int64_def)
  have k2: "\<not> int64 (requested_id (GET_author (2 ^ 63)))" by (simp add: int64_def)
  from lookup_failure_is_unhandled [OF h1 h2, of File_1] k0 k1
  have a: "fst (get_db (run_handler File_1 (GET_book 999)) startup) = Inl NoResultFound \<and>
      fst (request File_1 (GET_book 999) startup) = Response 500 (Text ''Internal Server Error'')"
    by simp
  from lookup_failure_is_unhandled [OF h3 h4, of File_3] k0 k2
  have b: "fst (get_db (run_handler File_3 (GET_author (2 ^ 63))) startup) = Inl OverflowError \<and>
      fst (request File_3 (GET_author (2 ^ 63)) startup) = Response 500 (Text ''Internal Server Error'')"
    by simp
  from a b h1 h2 h3 h4 show ?thesis by blast
qed

text \<open>
  C1 as the specification states it asks for a client error. \<^verbatim>\<open>GET /books/999\<close> of file 1
  on the seeded store is answered with status 500, which is not one.
\<close>

theorem missing_book_is_server_error:
  "\<not> client_error (fst (request File_1 (GET_book 999) startup)) \<and>
   server_error (fst (request File_1 (GET_book 999) startup)) \<and>
   status_code (fst (request File_1 (GET_book 999) startup)) = 500"
  by (simp add: fst_request startup_def seeded_eq get_book_eq int64_def respond_def
      client_error_def server_error_def)

subsection \<open>File 2 leaves the blurb out\<close>

text \<open>
  C2. Every returned book has in \<^verbatim>\<open>authors\<close> one entry for each association row of the
  book, in order, each a flat object with \<^verbatim>\<open>id\<close>, \<^verbatim>\<open>name\<close> and \<^verbatim>\<open>blurb\<close> (and likewise
  \<^verbatim>\<open>id\<close>, \<^verbatim>\<open>title\<close> and \<^verbatim>\<open>blurb\<close> in the \<^verbatim>\<open>books\<close> of an author). Files 1, 3 and 4 do this
  (\<open>book_entries_follow_rows\<close>, \<open>author_entries_follow_rows\<close>). File 2 does not: its
  statement selects \<^verbatim>\<open>book_authors.blurb\<close>, but its \<^verbatim>\<open>AuthorBase\<close> and \<^verbatim>\<open>BookBase\<close> declare
  \<^verbatim>\<open>id\<close> and \<^verbatim>\<open>name\<close> (\<^verbatim>\<open>title\<close>) only, so the entries of \<^verbatim>\<open>GET /books/1\<close> on the seeded
  store have the keys \<^verbatim>\<open>id\<close> and \<^verbatim>\<open>name\<close> and no \<^verbatim>\<open>blurb\<close>.
\<close>

theorem file_2_book_entries_lack_blurb:
  "app File_2 (GET_book 1) seeded =
     Inr (JObj [(''id'', JInt 1), (''title'', JStr ''Dead People Who'd Be Influencers Today''),
       (''authors'', JList
          [JObj [(''id'', JInt 1), (''name'', JStr ''Blu Renolds'')],
           JObj [(''id'', JInt 2), (''name'', JStr ''Chip Egan'')]])]) \<and>
   map keys (related (JObj [(''id'', JInt 1), (''title'', JStr ''Dead People Who'd Be Influencers Today''),
       (''authors'', JList
          [JObj [(''id'', JInt 1), (''name'', JStr ''Blu Renolds'')],
           JObj [(''id'', JInt 2), (''name'', JStr ''Chip Egan'')]])])) =
     [[''id'', ''name''], [''id'', ''name'']]"
  by (simp add: file_2_book_1 related_def field_def keys_def del: app_simps)

text \<open>
  C3. Every entry carries the blurb of the association row it was made from; author 1,
  who is in two rows with different blurbs, has one entry for each with that row's
  blurb. Files 1, 3 and 4 do this (\<open>author_entries_follow_rows\<close>). In file 2
  \<^verbatim>\<open>GET /authors/1\<close> on the seeded store returns two entries, neither with a blurb, while
  the two rows of author 1 hold "Blue wrote chapter 1" and "Blue wrote chapters 1-3".
\<close>

theorem file_2_author_entries_lack_blurb:
  "app File_2 (GET_author 1) seeded =
     Inr (JObj [(''id'', JInt 1), (''name'', JStr ''Blu Renolds''),
       (''books'', JList
          [JObj [(''id'', JInt 1), (''title'', JStr ''Dead People Who'd Be Influencers Today'')],
           JObj [(''id'', JInt 2), (''title'', JStr ''How To Make Friends In Your 30s'')]])]) \<and>
   map (\<lambda>x. field x ''blurb'')
     (related (JObj [(''id'', JInt 1), (''name'', JStr ''Blu Renolds''),
       (''books'', JList
          [JObj [(''id'', JInt 1), (''title'', JStr ''Dead People Who'd Be Influencers Today'')],
           JObj [(''id'', JInt 2), (''title'', JStr ''How To Make Friends In Your 30s'')]])])) =
     [None, None] \<and>
   map blurb (Author_books seeded \<lparr>a_id = 1, a_name = ''Blu Renolds''\<rparr>) =
     [''Blue wrote chapter 1'', ''Blue wrote chapters 1-3'']"
proof -
  have "map blurb (Author_books seeded \<lparr>a_id = 1, a_name = ''Blu Renolds''\<rparr>) =
      [''Blue wrote chapter 1'', ''Blue wrote chapters 1-3'']"
    by (simp add: Author_books_def index_order_def seeded_eq)
  then show ?thesis
    by (simp add: file_2_author_1 related_def field_def del: app_simps)
qed

text \<open>
  C4. The four files answer every request with the same JSON document. Files 1 and 3
  do, on every store (\<open>files_1_and_3_agree\<close>), and file 4 does up to the order of keys
  (\<open>files_3_and_4_agree_up_to_key_order\<close>). File 2 does not: for \<^verbatim>\<open>GET /books/2\<close> on the
  seeded store its entries lack the blurb that file 1 sends, and the two responses
  differ also with their keys put in order.
\<close>

theorem files_1_and_2_differ:
  "app File_1 (GET_book 2) seeded =
     Inr (JObj [(''id'', JInt 2), (''title'', JStr ''How To Make Friends In Your 30s''),
       (''authors'', JList
          [JObj [(''id'', JInt 1), (''name'', JStr ''Blu Renolds''), (''blurb'', JStr ''Blue wrote chapters 1-3'')],
           JObj [(''id'', JInt 3), (''name'', JStr ''Alyssa Wyatt''), (''blurb'', JStr ''Alyssa wrote chapter 4'')]])]) \<and>
   app File_2 (GET_book 2) seeded =
     Inr (JObj [(''id'', JInt 2), (''title'', JStr ''How To Make Friends In Your 30s''),
       (''authors'', JList
          [JObj [(''id'', JInt 1), (''name'', JStr ''Blu Renolds'')],
           JObj [(''id'', JInt 3), (''name'', JStr ''Alyssa Wyatt'')]])]) \<and>
   canonical_response (respond (app File_1 (GET_book 2) seeded)) \<noteq>
   canonical_response (respond (app File_2 (GET_book 2) seeded))"
  by (simp add: file_1_book_2 file_2_book_2 respond_def canonical_response_def del: app_simps)

subsection \<open>The seed\<close>

text \<open>
  C5. After the seed block has run on the freshly created tables, the store holds
  exactly 2 books, 3 authors and 4 association rows, with the literal values: book 1
  "Dead People Who'd Be Influencers Today" paired with author 1 "Blu Renolds" (blurb
  "Blue wrote chapter 1") and author 2 "Chip Egan" (blurb "Chip wrote chapter 2"); book 2
  "How To Make Friends In Your 30s" paired with author 1 (blurb "Blue wrote chapters 1-3")
  and author 3 "Alyssa Wyatt" (blurb "Alyssa wrote chapter 4").
\<close>

theorem seed_contents:
  "length (books (seed create_all)) = 2 \<and> length (authors (seed create_all)) = 3 \<and>
   length (book_authors (seed create_all)) = 4 \<and>
   books (seed create_all) =
     [\<lparr>b_id = 1, b_title = ''Dead People Who'd Be Influencers Today''\<rparr>,
      \<lparr>b_id = 2, b_title = ''How To Make Friends In Your 30s''\<rparr>] \<and>
   authors (seed create_all) =
     [\<lparr>a_id = 1, a_name = ''Blu Renolds''\<rparr>, \<lparr>a_id = 2, a_name = ''Chip Egan''\<rparr>,
      \<lparr>a_id = 3, a_name = ''Alyssa Wyatt''\<rparr>] \<and>
   book_authors (seed create_all) =
     [\<lparr>book_id = 1, author_id = 1, blurb = ''Blue wrote chapter 1''\<rparr>,
      \<lparr>book_id = 1, author_id = 2, blurb = ''Chip wrote chapter 2''\<rparr>,
      \<lparr>book_id = 2, author_id = 1, blurb = ''Blue wrote chapters 1-3''\<rparr>,
      \<lparr>book_id = 2, author_id = 3, blurb = ''Alyssa wrote chapter 4''\<rparr>]"
  by (simp add: seed_def create_all_def add_Book_def add_Author_def add_BookAuthor_def next_id_def)

subsection \<open>The entries of a response\<close>

text \<open>
  C6. In every response, an entry of an \<^verbatim>\<open>authors\<close> or \<^verbatim>\<open>books\<close> list has neither of the
  foreign-key columns \<^verbatim>\<open>book_id\<close> and \<^verbatim>\<open>author_id\<close> and no nested \<^verbatim>\<open>author\<close> or \<^verbatim>\<open>book\<close>
  object; the fields of the association are merged flat into the projection of the
  related entity. The first half holds in every file (\<open>entries_flat\<close>), and in files 1, 3
  and 4 every entry is the key and label of the related entity together with the blurb
  of its association row (\<open>entries_merged\<close>). File 2 does not merge: the blurb, the
  one field of the association besides its keys, is in no entry of \<^verbatim>\<open>GET /books\<close> on
  the seeded store, whose entries have the keys \<^verbatim>\<open>id\<close> and \<^verbatim>\<open>name\<close> alone, while every
  association row holds a blurb.
\<close>

theorem file_2_entries_not_merged:
  "app File_2 GET_books seeded =
     Inr (JList
       [JObj [(''id'', JInt 1), (''title'', JStr ''Dead People Who'd Be Influencers Today''),
          (''authors'', JList
             [JObj [(''id'', JInt 1), (''name'', JStr ''Blu Renolds'')],
              JObj [(''id'', JInt 2), (''name'', JStr ''Chip Egan'')]])],
        JObj [(''id'', JInt 2), (''title'', JStr ''How To Make Friends In Your 30s''),
          (''authors'', JList
             [JObj [(''id'', JInt 1), (''name'', JStr ''Blu Renolds'')],
              JObj [(''id'', JInt 3), (''name'', JStr ''Alyssa Wyatt'')]])]]) \<and>
   map (\<lambda>obj. map keys (related obj))
     (objects GET_books (JList
       [JObj [(''id'', JInt 1), (''title'', JStr ''Dead People Who'd Be Influencers Today''),
          (''authors'', JList
             [JObj [(''id'', JInt 1), (''name'', JStr ''Blu Renolds'')],
              JObj [(''id'', JInt 2), (''name'', JStr ''Chip Egan'')]])],
        JObj [(''id'', JInt 2), (''title'', JStr ''How To Make Friends In Your 30s''),
          (''authors'', JList
             [JObj [(''id'', JInt 1), (''name'', JStr ''Blu Renolds'')],
              JObj [(''id'', JInt 3), (''name'', JStr ''Alyssa Wyatt'')]])]])) =
     [[[''id'', ''name''], [''id'', ''name'']], [[''id'', ''name''], [''id'', ''name'']]] \<and>
   map blurb (book_authors seeded) =
     [''Blue wrote chapter 1'', ''Chip wrote chapter 2'', ''Blue wrote chapters 1-3'',
      ''Alyssa wrote chapter 4'']"
proof -
  have "map blurb (book_authors seeded) =
     [''Blue wrote chapter 1'', ''Chip wrote chapter 2'', ''Blue wrote chapters 1-3'',
      ''Alyssa wrote chapter 4'']"
    by (simp add: seeded_eq)
  then show ?thesis
    by (simp add: file_2_books related_def field_def keys_def del: app_simps)
qed

text \<open>
  C7. In every response of every route of every file, a top-level book or author object
  has no \<^verbatim>\<open>blurb\<close> of its own. In file 1, whose base schemas declare one, the route
  excludes it (\<open>file_1_model_declares_blurb\<close>).
\<close>

theorem top_level_without_blurb:
  assumes "app v e db = Inr j" "obj \<in> set (objects e j)"
  shows "''blurb'' \<notin> set (keys obj) \<and> field obj ''blurb'' = None"
  using app_objects [OF assms] by (auto simp: field_def keys_def book_top_def author_top_def)

text \<open>The hypotheses hold for \<^verbatim>\<open>GET /books/1\<close> of file 1 on the seeded store.\<close>

theorem top_level_without_blurb_witness:
  "app File_1 (GET_book 1) seeded =
     Inr (book_top \<lparr>b_id = 1, b_title = ''Dead People Who'd Be Influencers Today''\<rparr>
       [author_entry \<lparr>a_id = 1, a_name = ''Blu Renolds''\<rparr> \<lparr>book_id = 1, author_id = 1, blurb = ''Blue wrote chapter 1''\<rparr>,
        author_entry \<lparr>a_id = 2, a_name = ''Chip Egan''\<rparr> \<lparr>book_id = 1, author_id = 2, blurb = ''Chip wrote chapter 2''\<rparr>]) \<and>
   ''blurb'' \<notin> set (keys (book_top \<lparr>b_id = 1, b_title = ''Dead People Who'd Be Influencers Today''\<rparr>
       [author_entry \<lparr>a_id = 1, a_name = ''Blu Renolds''\<rparr> \<lparr>book_id = 1, author_id = 1, blurb = ''Blue wrote chapter 1''\<rparr>,
        author_entry \<lparr>a_id = 2, a_name = ''Chip Egan''\<rparr> \<lparr>book_id = 1, author_id = 2, blurb = ''Chip wrote chapter 2''\<rparr>]))"
proof -
  let ?b = "\<lparr>b_id = 1, b_title = ''Dead People Who'd Be Influencers Today''\<rparr>"
  let ?x = "author_entry \<lparr>a_id = 1, a_name = ''Blu Renolds''\<rparr> \<lparr>book_id = 1, author_id = 1, blurb = ''Blue wrote chapter 1''\<rparr>"
  let ?y = "author_entry \<lparr>a_id = 2, a_name = ''Chip Egan''\<rparr> \<lparr>book_id = 1, author_id = 2, blurb = ''Chip wrote chapter 2''\<rparr>"
  have h1: "app File_1 (GET_book 1) seeded = Inr (book_top ?b [?x, ?y])"
    by (simp add: file_1_book_1 book_top_def author_entry_def del: app_simps)
  have h2: "book_top ?b [?x, ?y] \<in> set (objects (GET_book 1) (book_top ?b [?x, ?y]))" by simp
  from top_level_without_blurb [OF h1 h2] h1 show ?thesis by simp
qed

subsection \<open>Reading does not write, yet a failed lookup is remembered\<close>

text \<open>
  C8. Every route is a pure read: a request leaves the store as it was, and the response
  to a request is the same whatever requests came before it. The store is indeed the
  same after every request (\<open>database_request\<close>, \<open>requests_database\<close>). The responses are
  not: the lookup of \<^verbatim>\<open>GET /books/999\<close> raises, its exception keeps the connection that
  \<^verbatim>\<open>get_db\<close> closes, and the request after it, \<^verbatim>\<open>GET /books/1\<close>, is answered with status
  500, while the same request to the service just started is answered with the book.
\<close>

theorem failed_lookup_spoils_the_next_request:
  "fst (request File_1 (GET_book 1) startup) =
     Response 200 (JSON (JObj [(''id'', JInt 1), (''title'', JStr ''Dead People Who'd Be Influencers Today''),
       (''authors'', JList
          [JObj [(''id'', JInt 1), (''name'', JStr ''Blu Renolds''), (''blurb'', JStr ''Blue wrote chapter 1'')],
           JObj [(''id'', JInt 2), (''name'', JStr ''Chip Egan''), (''blurb'', JStr ''Chip wrote chapter 2'')]])])) \<and>
   fst (requests File_1 [GET_book 999, GET_book 1] startup) =
     [Response 500 (Text ''Internal Server Error''), Response 500 (Text ''Internal Server Error'')] \<and>
   database (snd (requests File_1 [GET_book 999, GET_book 1] startup)) = database startup"
proof -
  have raises: "isl (handler (GET_book 999) seeded)"
    by (simp add: get_book_eq int64_def seeded_eq)
  have "fst (request File_1 (GET_book 1) startup) = respond (app File_1 (GET_book 1) seeded)"
    by (simp add: fst_request startup_def del: app_simps)
  then have fresh: "fst (request File_1 (GET_book 1) startup) =
     Response 200 (JSON (JObj [(''id'', JInt 1), (''title'', JStr ''Dead People Who'd Be Influencers Today''),
       (''authors'', JList
          [JObj [(''id'', JInt 1), (''name'', JStr ''Blu Renolds''), (''blurb'', JStr ''Blue wrote chapter 1'')],
           JObj [(''id'', JInt 2), (''name'', JStr ''Chip Egan''), (''blurb'', JStr ''Chip wrote chapter 2'')]])]))"
    by (simp add: file_1_book_1 respond_def del: app_simps)
  have missing: "app File_1 (GET_book 999) seeded = Inl NoResultFound"
    by (simp add: get_book_eq int64_def seeded_eq)
  have later: "fst (requests File_1 [GET_book 999, GET_book 1] startup) =
     [Response 500 (Text ''Internal Server Error''), Response 500 (Text ''Internal Server Error'')]"
    using raises missing
    by (simp add: split_beta fst_request stale_request database_request startup_def respond_def
        del: app_simps)
  have store: "database (snd (requests File_1 [GET_book 999, GET_book 1] startup)) = database startup"
    by (rule requests_database)
  from fresh later store show ?thesis by (intro conjI)
qed

subsection \<open>The session is closed\<close>

text \<open>
  C9. Whatever the request does between the \<^verbatim>\<open>yield\<close> and the end of \<^verbatim>\<open>get_db\<close>, be it a
  value or an exception, \<^verbatim>\<open>get_db\<close> passes that outcome on and the session it made, open
  during the request, is no longer open afterwards.
\<close>

theorem session_closed_on_every_exit:
  "fst (get_db use w) = fst (use (sessions_made w) (snd (Session w))) \<and>
   sessions_made w \<notin> set (open_sessions (snd (get_db use w))) \<and>
   sessions_made w \<in> set (open_sessions (snd (Session w))) \<and>
   open_sessions (snd (request v e w)) = removeAll (sessions_made w) (open_sessions w)"
  by (simp add: get_db_def Session_def close_def request_eq split: prod.splits sum.splits)

subsection \<open>File 4 renders every stored entity\<close>

text \<open>
  C10. \<^verbatim>\<open>BookSchema.dict\<close> and \<^verbatim>\<open>AuthorSchema.dict\<close> of file 4 subscript the optional
  \<^verbatim>\<open>author\<close> and \<^verbatim>\<open>book\<close> of every entry without a test for \<^verbatim>\<open>None\<close>. When every
  association row links to a stored author and a stored book, the rendering of every
  book and of every author returns, both list routes return, and a singular route can
  only fail in its lookup.
\<close>

theorem dict_total_under_integrity:
  assumes "fk_valid db"
  shows "(\<exists>j. book_response_4 db b = Inr j) \<and> (\<exists>j. author_response_4 db a = Inr j) \<and>
         (\<exists>j. app File_4 GET_books db = Inr j) \<and> (\<exists>j. app File_4 GET_authors db = Inr j) \<and>
         ((\<exists>j. app File_4 e db = Inr j) \<or> (\<exists>err. app File_4 e db = Inl err \<and> lookup_error err))"
proof -
  have b: "\<And>b. \<exists>j. book_response_4 db b = Inr j" using assms by (rule book_response_4_total)
  have a: "\<And>a. \<exists>j. author_response_4 db a = Inr j" using assms by (rule author_response_4_total)
  have bs: "\<exists>j. app File_4 GET_books db = Inr j"
    using mapE_total_on [of "get_books db" "book_response File_4 db"] b by auto
  have as: "\<exists>j. app File_4 GET_authors db = Inr j"
    using mapE_total_on [of "get_authors db" "author_response File_4 db"] a by auto
  have "(\<exists>j. app File_4 e db = Inr j) \<or> (\<exists>err. app File_4 e db = Inl err \<and> lookup_error err)"
  proof (cases e)
    case (GET_book i)
    then show ?thesis
      using get_book_cases [of db i] b by auto
  next
    case GET_books
    with bs show ?thesis by simp
  next
    case (GET_author i)
    then show ?thesis
      using get_author_cases [of db i] a by auto
  next
    case GET_authors
    with as show ?thesis by simp
  qed
  with a b as bs show ?thesis by blast
qed

text \<open>The seeded store has referential integrity, and \<^verbatim>\<open>GET /books/1\<close> returns on it.\<close>

theorem dict_total_under_integrity_witness:
  "fk_valid seeded \<and> (\<exists>j. book_response_4 seeded \<lparr>b_id = 1, b_title = ''Dead People Who'd Be Influencers Today''\<rparr> = Inr j) \<and>
   (\<exists>j. app File_4 GET_books seeded = Inr j) \<and> (\<exists>j. app File_4 GET_authors seeded = Inr j) \<and>
   (\<exists>j. app File_4 (GET_book 1) seeded = Inr j)"
  using dict_total_under_integrity [OF fk_valid_seeded,
      of "\<lparr>b_id = 1, b_title = ''Dead People Who'd Be Influencers Today''\<rparr>" "\<lparr>a_id = 1, a_name = ''Blu Renolds''\<rparr>"
         "GET_book 1"]
    fk_valid_seeded file_4_book_1 by simp

end
